theory Spec2Isabelle
  imports Main "HOL-Library.Word" "HOL-Library.Multiset"
begin

section \<open>JavaScript values\<close>

text \<open>
  A JavaScript string is a sequence of 16-bit code units. Request bodies are the values
  that \<open>express.json()\<close> leaves in \<open>req.body\<close>: JSON values, or \<open>undefined\<close> when no
  body was parsed. Numbers are the integers from \<open>-2^53\<close> to \<open>2^53 - 1\<close>, held in 54 bits
  and read as signed: each of them is a double exactly.
\<close>

type_synonym jsstring = "16 word list"

definition js :: "string \<Rightarrow> jsstring" where
  "js s = map (\<lambda>c. of_nat (of_char c)) s"

datatype jsval =
    JUndefined
  | JNull
  | JBool bool
  | JNum "54 word"
  | JStr jsstring
  | JArr "jsval list"
  | JObj "(jsstring \<times> jsval) list"

datatype js_error = TypeError | CastError | ValidationError | StorageError

text \<open>Truthiness, as used by \<open>||\<close> and \<open>!\<close>.\<close>

fun truthy :: "jsval \<Rightarrow> bool" where
  "truthy JUndefined = False"
| "truthy JNull = False"
| "truthy (JBool b) = b"
| "truthy (JNum n) = (n \<noteq> 0)"
| "truthy (JStr s) = (s \<noteq> [])"
| "truthy (JArr vs) = True"
| "truthy (JObj kvs) = True"

definition js_or :: "jsval \<Rightarrow> jsval \<Rightarrow> jsval" where
  "js_or a b = (if truthy a then a else b)"

text \<open>
  \<open>v.k\<close> for the property names the handlers read (\<open>text\<close>, \<open>author\<close>, \<open>quotes\<close>,
  \<open>completed\<close>), none of which is inherited from a prototype: reading from \<open>undefined\<close>
  or \<open>null\<close> throws a TypeError, an object yields its own property or \<open>undefined\<close>, and
  every other value yields \<open>undefined\<close>.
\<close>

fun get_prop :: "jsval \<Rightarrow> jsstring \<Rightarrow> js_error + jsval" where
  "get_prop JUndefined k = Inl TypeError"
| "get_prop JNull k = Inl TypeError"
| "get_prop (JObj kvs) k = Inr (case map_of kvs k of None \<Rightarrow> JUndefined | Some v \<Rightarrow> v)"
| "get_prop v k = Inr JUndefined"

text \<open>\<open>v?.k\<close>: \<open>undefined\<close> instead of the TypeError.\<close>

definition opt_prop :: "jsval \<Rightarrow> jsstring \<Rightarrow> jsval" where
  "opt_prop v k = (case get_prop v k of Inl e \<Rightarrow> JUndefined | Inr x \<Rightarrow> x)"

text \<open>
  \<open>String.prototype.trim\<close> removes white space and line terminators from both ends:
  TAB, LF, VT, FF, CR, SP, NBSP, U+1680, U+2000..U+200A, U+2028, U+2029, U+202F,
  U+205F, U+3000 and U+FEFF.
\<close>

definition is_ws :: "16 word \<Rightarrow> bool" where
  "is_ws c = (c \<in> set [0x09, 0x0A, 0x0B, 0x0C, 0x0D, 0x20, 0xA0, 0x1680,
                        0x2000, 0x2001, 0x2002, 0x2003, 0x2004, 0x2005, 0x2006,
                        0x2007, 0x2008, 0x2009, 0x200A, 0x2028, 0x2029, 0x202F,
                        0x205F, 0x3000, 0xFEFF])"

definition trim :: "jsstring \<Rightarrow> jsstring" where
  "trim s = rev (dropWhile is_ws (rev (dropWhile is_ws s)))"

text \<open>
  \<open>v.trim()\<close>: only a string has the method; on every other value the call throws a
  TypeError (no property to read on \<open>undefined\<close> and \<open>null\<close>, not a function otherwise).
\<close>

fun call_trim :: "jsval \<Rightarrow> js_error + jsstring" where
  "call_trim (JStr s) = Inr (trim s)"
| "call_trim v = Inl TypeError"

text \<open>\<open>String(n)\<close> for a number of the model: its decimal digits, with a sign when
  negative.\<close>

fun digits_of :: "nat \<Rightarrow> jsstring" where
  "digits_of n = (if n < 10 then [of_nat (48 + n)]
                  else digits_of (n div 10) @ [of_nat (48 + n mod 10)])"

definition num_to_string :: "54 word \<Rightarrow> jsstring" where
  "num_to_string n =
     (if sint n < 0 then 0x2D # digits_of (nat (- sint n)) else digits_of (nat (sint n)))"

section \<open>The collections\<close>

text \<open>
  The two schemas of the source, both with \<open>timestamps: true\<close>. Identifiers are
  ObjectIds, read as the number their 24 hexadecimal digits denote; timestamps are
  milliseconds.
\<close>

record quote =
  quote_id :: nat
  quote_text :: jsstring
  quote_author :: "jsstring option"
  quote_createdAt :: nat
  quote_updatedAt :: nat

record todo =
  todo_id :: nat
  todo_text :: jsstring
  todo_completed :: bool
  todo_createdAt :: nat
  todo_updatedAt :: nat

text \<open>The model methods the handlers call; each call is recorded in the store's log.\<close>

datatype storage_call =
    Quote_aggregate_call
  | Quote_insertMany_call
  | Quote_create_call
  | Todo_find_call
  | Todo_create_call
  | Todo_findByIdAndUpdate_call
  | Todo_findByIdAndDelete_call

text \<open>
  The database behind the connection: the two collections in insertion order, the next
  identifier to assign, whether the database answers (\<open>db_up\<close>; when it does not, every
  operation that reaches it throws), and the log of the model methods called so far.
\<close>

record store =
  todos :: "todo list"
  quotes :: "quote list"
  next_id :: nat
  db_up :: bool
  oplog :: "storage_call list"

definition logged :: "storage_call \<Rightarrow> store \<Rightarrow> store" where
  "logged c s = s\<lparr>oplog := oplog s @ [c]\<rparr>"

subsection \<open>Casting and validation by the schemas\<close>

text \<open>
  A string that is an ObjectId: exactly 24 hexadecimal digits, in either case. Every
  other string fails the cast of \<open>_id\<close>.
\<close>

definition hex_val :: "16 word \<Rightarrow> nat option" where
  "hex_val c =
     (if 0x30 \<le> c \<and> c \<le> 0x39 then Some (unat c - 0x30)
      else if 0x61 \<le> c \<and> c \<le> 0x66 then Some (unat c - 0x61 + 10)
      else if 0x41 \<le> c \<and> c \<le> 0x46 then Some (unat c - 0x41 + 10)
      else None)"

fun hex_num :: "nat \<Rightarrow> jsstring \<Rightarrow> nat option" where
  "hex_num acc [] = Some acc"
| "hex_num acc (c # cs) =
     (case hex_val c of None \<Rightarrow> None | Some d \<Rightarrow> hex_num (16 * acc + d) cs)"

definition parse_oid :: "jsstring \<Rightarrow> nat option" where
  "parse_oid s = (if length s = 24 then hex_num 0 s else None)"

text \<open>
  The cast of a value to the schema type \<open>String\<close>: \<open>null\<close> and \<open>undefined\<close> stay absent,
  a number or boolean is printed, an object carrying a non-empty string \<open>_id\<close> is
  replaced by it, and an array or any other object fails.
\<close>

fun cast_string :: "jsval \<Rightarrow> js_error + jsstring option" where
  "cast_string JUndefined = Inr None"
| "cast_string JNull = Inr None"
| "cast_string (JStr s) = Inr (Some s)"
| "cast_string (JNum n) = Inr (Some (num_to_string n))"
| "cast_string (JBool b) = Inr (Some (js (if b then ''true'' else ''false'')))"
| "cast_string (JArr vs) = Inl CastError"
| "cast_string (JObj kvs) =
     (case map_of kvs (js ''_id'') of
        Some (JStr i) \<Rightarrow> if i \<noteq> [] then Inr (Some i) else Inl CastError
      | _ \<Rightarrow> Inl CastError)"

text \<open>
  \<open>{ type: String, required: true, trim: true }\<close>: the value is cast and trimmed, and
  an absent or empty result fails validation.
\<close>

definition required_text :: "jsval \<Rightarrow> js_error + jsstring" where
  "required_text v =
     (case cast_string v of
        Inl e \<Rightarrow> Inl ValidationError
      | Inr None \<Rightarrow> Inl ValidationError
      | Inr (Some t) \<Rightarrow> if trim t = [] then Inl ValidationError else Inr (trim t))"

text \<open>\<open>{ type: String, trim: true }\<close>: optional.\<close>

definition optional_text :: "jsval \<Rightarrow> js_error + jsstring option" where
  "optional_text v =
     (case cast_string v of
        Inl e \<Rightarrow> Inl ValidationError
      | Inr a \<Rightarrow> Inr (map_option trim a))"

text \<open>A quote document before it is stored: the validated \<open>text\<close> and \<open>author\<close>.\<close>

definition quote_fields :: "jsval \<times> jsval \<Rightarrow> js_error + (jsstring \<times> jsstring option)" where
  "quote_fields ta =
     (case required_text (fst ta) of
        Inl e \<Rightarrow> Inl e
      | Inr t \<Rightarrow> (case optional_text (snd ta) of
                   Inl e \<Rightarrow> Inl e
                 | Inr a \<Rightarrow> Inr (t, a)))"

fun validate_all :: "(jsval \<times> jsval) list \<Rightarrow> js_error + (jsstring \<times> jsstring option) list" where
  "validate_all [] = Inr []"
| "validate_all (ta # rest) =
     (case quote_fields ta of
        Inl e \<Rightarrow> Inl e
      | Inr f \<Rightarrow> (case validate_all rest of Inl e \<Rightarrow> Inl e | Inr fs \<Rightarrow> Inr (f # fs)))"

text \<open>
  The documents of a batch: each takes the next identifier and its own reading of the
  clock, \<open>clock k\<close> being the \<open>k\<close>-th reading taken while the request is handled.
\<close>

fun mk_quotes ::
  "(nat \<Rightarrow> nat) \<Rightarrow> nat \<Rightarrow> nat \<Rightarrow> (jsstring \<times> jsstring option) list \<Rightarrow> quote list" where
  "mk_quotes clock k i [] = []"
| "mk_quotes clock k i (f # fs) =
     \<lparr>quote_id = i, quote_text = fst f, quote_author = snd f,
      quote_createdAt = clock k, quote_updatedAt = clock k\<rparr>
     # mk_quotes clock (Suc k) (Suc i) fs"

subsection \<open>The model methods\<close>

text \<open>
  Each method returns what the awaited promise settles to (\<open>Inl\<close> a rejection) and the
  store afterwards. \<open>now\<close> is the clock reading that the timestamps of one document
  take, \<open>rnd\<close> the random choice of \<open>$sample\<close>.
\<close>

text \<open>\<open>Quote.aggregate([{ $sample: { size: 1 } }])\<close>\<close>

definition Quote_aggregate_sample :: "nat \<Rightarrow> store \<Rightarrow> (js_error + quote list) \<times> store" where
  "Quote_aggregate_sample rnd s =
     (let s' = logged Quote_aggregate_call s in
      if \<not> db_up s then (Inl StorageError, s')
      else if quotes s = [] then (Inr [], s')
      else (Inr [quotes s ! (rnd mod length (quotes s))], s'))"

text \<open>
  \<open>Quote.insertMany(docs)\<close>: every document is validated before anything is sent; one
  failure rejects the whole call, and an empty list resolves to \<open>[]\<close> without reaching
  the database.
\<close>

definition Quote_insertMany ::
  "(nat \<Rightarrow> nat) \<Rightarrow> (jsval \<times> jsval) list \<Rightarrow> store \<Rightarrow> (js_error + quote list) \<times> store"
  where
  "Quote_insertMany clock docs s =
     (let s' = logged Quote_insertMany_call s in
      case validate_all docs of
        Inl e \<Rightarrow> (Inl e, s')
      | Inr fs \<Rightarrow>
          if fs = [] then (Inr [], s')
          else if \<not> db_up s then (Inl StorageError, s')
          else (let new = mk_quotes clock 0 (next_id s) fs in
                (Inr new, s'\<lparr>quotes := quotes s @ new,
                              next_id := next_id s + length new\<rparr>)))"

text \<open>\<open>Quote.create({ text, author })\<close>\<close>

definition Quote_create ::
  "nat \<Rightarrow> jsval \<times> jsval \<Rightarrow> store \<Rightarrow> (js_error + quote) \<times> store" where
  "Quote_create now ta s =
     (let s' = logged Quote_create_call s in
      case quote_fields ta of
        Inl e \<Rightarrow> (Inl e, s')
      | Inr f \<Rightarrow>
          if \<not> db_up s then (Inl StorageError, s')
          else (let q = \<lparr>quote_id = next_id s, quote_text = fst f, quote_author = snd f,
                          quote_createdAt = now, quote_updatedAt = now\<rparr> in
                (Inr q, s'\<lparr>quotes := quotes s @ [q], next_id := Suc (next_id s)\<rparr>)))"

text \<open>
  \<open>Todo.find().sort({ createdAt: -1 })\<close>: all documents, latest \<open>createdAt\<close> first.
\<close>

definition Todo_find_sorted :: "store \<Rightarrow> (js_error + todo list) \<times> store" where
  "Todo_find_sorted s =
     (let s' = logged Todo_find_call s in
      if \<not> db_up s then (Inl StorageError, s')
      else (Inr (rev (sort_key todo_createdAt (todos s))), s'))"

text \<open>\<open>Todo.create({ text })\<close>: \<open>completed\<close> takes its default \<open>false\<close>.\<close>

definition Todo_create :: "nat \<Rightarrow> jsval \<Rightarrow> store \<Rightarrow> (js_error + todo) \<times> store" where
  "Todo_create now text s =
     (let s' = logged Todo_create_call s in
      case required_text text of
        Inl e \<Rightarrow> (Inl e, s')
      | Inr t \<Rightarrow>
          if \<not> db_up s then (Inl StorageError, s')
          else (let d = \<lparr>todo_id = next_id s, todo_text = t, todo_completed = False,
                          todo_createdAt = now, todo_updatedAt = now\<rparr> in
                (Inr d, s'\<lparr>todos := todos s @ [d], next_id := Suc (next_id s)\<rparr>)))"

text \<open>The \<open>updates\<close> object of the PATCH handler: each key is present or not.\<close>

record updates =
  upd_text :: "jsstring option"
  upd_completed :: "bool option"

definition apply_updates :: "nat \<Rightarrow> updates \<Rightarrow> todo \<Rightarrow> todo" where
  "apply_updates now u d =
     d\<lparr>todo_text := (case upd_text u of None \<Rightarrow> todo_text d | Some t \<Rightarrow> t),
       todo_completed := (case upd_completed u of None \<Rightarrow> todo_completed d | Some c \<Rightarrow> c),
       todo_updatedAt := now\<rparr>"

text \<open>The first document with the given identifier is replaced, the others are kept.\<close>

fun update_first :: "nat \<Rightarrow> (todo \<Rightarrow> todo) \<Rightarrow> todo list \<Rightarrow> todo list" where
  "update_first k f [] = []"
| "update_first k f (d # ds) = (if todo_id d = k then f d # ds else d # update_first k f ds)"

fun delete_first :: "nat \<Rightarrow> todo list \<Rightarrow> todo list" where
  "delete_first k [] = []"
| "delete_first k (d # ds) = (if todo_id d = k then ds else d # delete_first k ds)"

text \<open>The validation of an update (\<open>runValidators: true\<close>): a new text is cast like a
  stored one.\<close>

definition validate_updates :: "updates \<Rightarrow> js_error + updates" where
  "validate_updates u =
     (case upd_text u of
        None \<Rightarrow> Inr u
      | Some t \<Rightarrow> (case required_text (JStr t) of
                     Inl e \<Rightarrow> Inl e
                   | Inr t' \<Rightarrow> Inr (u\<lparr>upd_text := Some t'\<rparr>)))"

text \<open>\<open>Todo.findByIdAndUpdate(id, updates, { new: true, runValidators: true })\<close>:
  resolves to the document after the update, or to \<open>null\<close> when none has the identifier.\<close>

definition Todo_findByIdAndUpdate ::
  "nat \<Rightarrow> jsstring \<Rightarrow> updates \<Rightarrow> store \<Rightarrow> (js_error + todo option) \<times> store" where
  "Todo_findByIdAndUpdate now ident u s =
     (let s' = logged Todo_findByIdAndUpdate_call s in
      case parse_oid ident of
        None \<Rightarrow> (Inl CastError, s')
      | Some k \<Rightarrow>
          (case validate_updates u of
             Inl e \<Rightarrow> (Inl e, s')
           | Inr u' \<Rightarrow>
               if \<not> db_up s then (Inl StorageError, s')
               else (case find (\<lambda>d. todo_id d = k) (todos s) of
                       None \<Rightarrow> (Inr None, s')
                     | Some d \<Rightarrow>
                         (Inr (Some (apply_updates now u' d)),
                          s'\<lparr>todos := update_first k (apply_updates now u') (todos s)\<rparr>))))"

text \<open>\<open>Todo.findByIdAndDelete(id)\<close>: resolves to the deleted document or to \<open>null\<close>.\<close>

definition Todo_findByIdAndDelete ::
  "jsstring \<Rightarrow> store \<Rightarrow> (js_error + todo option) \<times> store" where
  "Todo_findByIdAndDelete ident s =
     (let s' = logged Todo_findByIdAndDelete_call s in
      case parse_oid ident of
        None \<Rightarrow> (Inl CastError, s')
      | Some k \<Rightarrow>
          if \<not> db_up s then (Inl StorageError, s')
          else (case find (\<lambda>d. todo_id d = k) (todos s) of
                  None \<Rightarrow> (Inr None, s')
                | Some d \<Rightarrow> (Inr (Some d), s'\<lparr>todos := delete_first k (todos s)\<rparr>)))"

section \<open>The route handlers\<close>

text \<open>What \<open>res.json\<close> and \<open>res.sendFile\<close> send; \<open>Error_page\<close> is the page with which
  the framework itself answers a request that ends in an error or that nothing takes.\<close>

datatype body =
    Message string
  | Health nat
  | QuoteDoc quote
  | QuoteDocs "quote list"
  | TodoDoc todo
  | TodoDocs "todo list"
  | Deleted string jsstring
  | File string
  | NoContent
  | Error_page

text \<open>
  A handler either sends a response, or its promise rejects outside every \<open>try\<close> and
  the handler itself sends nothing.
\<close>

datatype outcome = Responded nat body | Rejected js_error

text \<open>\<open>app.get('/api/health', ...)\<close>\<close>

definition health_get :: "nat \<Rightarrow> store \<Rightarrow> outcome \<times> store" where
  "health_get now s = (Responded 200 (Health now), s)"

text \<open>\<open>app.get('/api/quotes/random', ...)\<close>\<close>

definition quotes_random_get :: "nat \<Rightarrow> store \<Rightarrow> outcome \<times> store" where
  "quotes_random_get rnd s =
     (case Quote_aggregate_sample rnd s of
        (Inl err, s') \<Rightarrow> (Responded 500 (Message ''Failed to fetch random quote''), s')
      | (Inr docs, s') \<Rightarrow>
          (case docs of
             [] \<Rightarrow> (Responded 404 (Message ''No quotes found''), s')
           | d # ds \<Rightarrow> (Responded 200 (QuoteDoc d), s')))"

text \<open>\<open>quotes.map(q => ({ text: q.text, author: q.author }))\<close>: an element that is
  \<open>null\<close> throws.\<close>

fun map_quotes :: "jsval list \<Rightarrow> js_error + (jsval \<times> jsval) list" where
  "map_quotes [] = Inr []"
| "map_quotes (q # qs) =
     (case get_prop q (js ''text'') of
        Inl e \<Rightarrow> Inl e
      | Inr t \<Rightarrow>
          (case get_prop q (js ''author'') of
             Inl e \<Rightarrow> Inl e
           | Inr a \<Rightarrow> (case map_quotes qs of Inl e \<Rightarrow> Inl e | Inr r \<Rightarrow> Inr ((t, a) # r))))"

text \<open>\<open>app.post('/api/quotes', ...)\<close>. \<open>req.body || {}\<close> is never \<open>undefined\<close> or
  \<open>null\<close>, so the destructuring reads its properties without throwing.\<close>

definition quotes_post :: "(nat \<Rightarrow> nat) \<Rightarrow> jsval \<Rightarrow> store \<Rightarrow> outcome \<times> store" where
  "quotes_post clock req_body s =
     (let b = js_or req_body (JObj []);
          text = opt_prop b (js ''text'');
          author = opt_prop b (js ''author'');
          quotes = opt_prop b (js ''quotes'');
          failed = Responded 500 (Message ''Failed to insert quotes'')
      in case quotes of
           JArr qs \<Rightarrow>
             (case map_quotes qs of
                Inl err \<Rightarrow> (failed, s)
              | Inr docs \<Rightarrow>
                  (case Quote_insertMany clock docs s of
                     (Inl err, s') \<Rightarrow> (failed, s')
                   | (Inr result, s') \<Rightarrow> (Responded 201 (QuoteDocs result), s')))
         | _ \<Rightarrow>
             (case call_trim (js_or text (JStr [])) of
                Inl err \<Rightarrow> (failed, s)
              | Inr t \<Rightarrow>
                  if t = [] then (Responded 400 (Message ''Text is required''), s)
                  else (case Quote_create (clock 0) (JStr t, author) s of
                          (Inl err, s') \<Rightarrow> (failed, s')
                        | (Inr result, s') \<Rightarrow> (Responded 201 (QuoteDoc result), s'))))"

text \<open>\<open>app.get('/api/todos', ...)\<close>\<close>

definition todos_get :: "store \<Rightarrow> outcome \<times> store" where
  "todos_get s =
     (case Todo_find_sorted s of
        (Inl err, s') \<Rightarrow> (Responded 500 (Message ''Failed to fetch todos''), s')
      | (Inr ts, s') \<Rightarrow> (Responded 200 (TodoDocs ts), s'))"

text \<open>\<open>app.post('/api/todos', ...)\<close>: the first statement stands before the \<open>try\<close>.\<close>

definition todos_post :: "nat \<Rightarrow> jsval \<Rightarrow> store \<Rightarrow> outcome \<times> store" where
  "todos_post now req_body s =
     (case call_trim (js_or (opt_prop req_body (js ''text'')) (JStr [])) of
        Inl err \<Rightarrow> (Rejected err, s)
      | Inr text \<Rightarrow>
          if text = [] then (Responded 400 (Message ''Text is required''), s)
          else (case Todo_create now (JStr text) s of
                  (Inl err, s') \<Rightarrow> (Responded 500 (Message ''Failed to create todo''), s')
                | (Inr t, s') \<Rightarrow> (Responded 201 (TodoDoc t), s')))"

text \<open>\<open>app.patch('/api/todos/:id', ...)\<close>\<close>

definition todos_patch :: "nat \<Rightarrow> jsstring \<Rightarrow> jsval \<Rightarrow> store \<Rightarrow> outcome \<times> store" where
  "todos_patch now ident req_body s =
     (case (case opt_prop req_body (js ''text'') of
              JStr t \<Rightarrow>
                (let trimmed = trim t in
                 if trimmed = [] then Inl (Responded 400 (Message ''Text cannot be empty''))
                 else Inr (Some trimmed))
            | _ \<Rightarrow> Inr None) of
        Inl r \<Rightarrow> (r, s)
      | Inr ut \<Rightarrow>
          (let uc = (case opt_prop req_body (js ''completed'') of
                       JBool c \<Rightarrow> Some c
                     | _ \<Rightarrow> None)
           in if ut = None \<and> uc = None
              then (Responded 400 (Message ''No valid fields to update''), s)
              else (case Todo_findByIdAndUpdate now ident
                           \<lparr>upd_text = ut, upd_completed = uc\<rparr> s of
                      (Inl err, s') \<Rightarrow>
                        (Responded 500 (Message ''Failed to update todo''), s')
                    | (Inr None, s') \<Rightarrow> (Responded 404 (Message ''Todo not found''), s')
                    | (Inr (Some t), s') \<Rightarrow> (Responded 200 (TodoDoc t), s'))))"

text \<open>\<open>app.delete('/api/todos/:id', ...)\<close>\<close>

definition todos_delete :: "jsstring \<Rightarrow> store \<Rightarrow> outcome \<times> store" where
  "todos_delete ident s =
     (case Todo_findByIdAndDelete ident s of
        (Inl err, s') \<Rightarrow> (Responded 500 (Message ''Failed to delete todo''), s')
      | (Inr None, s') \<Rightarrow> (Responded 404 (Message ''Todo not found''), s')
      | (Inr (Some t), s') \<Rightarrow> (Responded 200 (Deleted ''Todo deleted'' ident), s'))"

section \<open>Routing\<close>

datatype http_method = GET | HEAD | POST | PUT | PATCH | DELETE | OPTIONS

text \<open>
  A request: the method, the path of the URL as it was sent, the parsed body, and what
  the handler reads from the environment while it runs: the readings of the clock, in
  the order they are taken, and the random choice of the sample. Headers are not part
  of the model: a request carries no cache validator and no range.
\<close>

record request =
  req_method :: http_method
  req_path :: jsstring
  req_body :: jsval
  req_clock :: "nat \<Rightarrow> nat"
  req_rnd :: nat

text \<open>A route registered with \<open>app.get\<close> also answers HEAD.\<close>

definition is_get :: "http_method \<Rightarrow> bool" where
  "is_get m = (m = GET \<or> m = HEAD)"

text \<open>
  The framework turns each route path into a regular expression that ignores case and
  allows one slash at the end. Against a pattern of ASCII characters only ASCII letters
  are matched without regard to case.
\<close>

definition upper_ascii :: "16 word \<Rightarrow> 16 word" where
  "upper_ascii c = (if 0x61 \<le> c \<and> c \<le> 0x7A then c - 0x20 else c)"

definition ci_eq :: "jsstring \<Rightarrow> jsstring \<Rightarrow> bool" where
  "ci_eq a b = (map upper_ascii a = map upper_ascii b)"

text \<open>A fixed route path \<open>lit\<close>, that is \<open>^lit\/?$\<close> without regard to case.\<close>

definition path_is :: "jsstring \<Rightarrow> string \<Rightarrow> bool" where
  "path_is p lit = (ci_eq p (js lit) \<or> ci_eq p (js lit @ [0x2F]))"

text \<open>
  \<open>'/api/todos/:id'\<close>, that is \<open>^\/api\/todos(?:\/([^\/]+?))\/?$\<close> without regard to
  case: what the parameter captures, a non-empty run without a slash, or \<open>None\<close> when
  the path does not match.
\<close>

definition id_param :: "jsstring \<Rightarrow> jsstring option" where
  "id_param p =
     (if ci_eq (take 10 p) (js ''/api/todos'')
      then (case drop 10 p of
              [] \<Rightarrow> None
            | c # r \<Rightarrow>
                if c \<noteq> 0x2F then None
                else (let cap = (if r \<noteq> [] \<and> last r = 0x2F then butlast r else r)
                      in if cap \<noteq> [] \<and> 0x2F \<notin> set cap then Some cap else None))
      else None)"

text \<open>
  The API routes in the order of their registration, the two with \<open>:id\<close> carrying the
  decoded parameter.
\<close>

datatype route =
    Health_route
  | Quotes_random_route
  | Quotes_post_route
  | Todos_get_route
  | Todos_post_route
  | Todos_patch_route jsstring
  | Todos_delete_route jsstring

text \<open>
  What the router finds for a request: a route, a parameter that cannot be decoded, or
  nothing. \<open>decode\<close> stands for \<open>decodeURIComponent\<close> (\<open>None\<close> when it throws). The
  parameter is decoded as soon as the path matches, whatever the method, and a failure
  stays pending: no later route or middleware takes the request.
\<close>

datatype routing = Routed route | Bad_param | Unrouted

definition match_route ::
  "(jsstring \<Rightarrow> jsstring option) \<Rightarrow> http_method \<Rightarrow> jsstring \<Rightarrow> routing" where
  "match_route decode m p =
     (if is_get m \<and> path_is p ''/api/health'' then Routed Health_route
      else if is_get m \<and> path_is p ''/api/quotes/random'' then Routed Quotes_random_route
      else if m = POST \<and> path_is p ''/api/quotes'' then Routed Quotes_post_route
      else if is_get m \<and> path_is p ''/api/todos'' then Routed Todos_get_route
      else if m = POST \<and> path_is p ''/api/todos'' then Routed Todos_post_route
      else (case id_param p of
              None \<Rightarrow> Unrouted
            | Some raw \<Rightarrow>
                (case decode raw of
                   None \<Rightarrow> Bad_param
                 | Some ident \<Rightarrow>
                     if m = PATCH then Routed (Todos_patch_route ident)
                     else if m = DELETE then Routed (Todos_delete_route ident)
                     else Unrouted)))"

fun run_route :: "route \<Rightarrow> request \<Rightarrow> store \<Rightarrow> outcome \<times> store" where
  "run_route Health_route rq s = health_get (req_clock rq 0) s"
| "run_route Quotes_random_route rq s = quotes_random_get (req_rnd rq) s"
| "run_route Quotes_post_route rq s = quotes_post (req_clock rq) (req_body rq) s"
| "run_route Todos_get_route rq s = todos_get s"
| "run_route Todos_post_route rq s = todos_post (req_clock rq 0) (req_body rq) s"
| "run_route (Todos_patch_route ident) rq s =
     todos_patch (req_clock rq 0) ident (req_body rq) s"
| "run_route (Todos_delete_route ident) rq s = todos_delete ident s"

text \<open>
  What lies outside the source: \<open>decodeURIComponent\<close>; what the file server of
  \<open>express.static\<close> answers for a GET or HEAD request from the files under \<open>../dist\<close>
  (\<open>None\<close> when it passes the request on: no such file, a hidden file, a path it
  refuses); and the content of \<open>../dist/index.html\<close>, if that file exists.
\<close>

record platform =
  decode_uri :: "jsstring \<Rightarrow> jsstring option"
  static_send :: "request \<Rightarrow> outcome option"
  index_doc :: "string option"

text \<open>\<open>app.use(express.static(...))\<close>: every method but GET and HEAD is passed on.\<close>

definition express_static :: "platform \<Rightarrow> request \<Rightarrow> outcome option" where
  "express_static pf rq = (if is_get (req_method rq) then static_send pf rq else None)"

text \<open>
  \<open>app.get("*", ...)\<close>: the pattern takes every path, and the whole path is its
  parameter, decoded as soon as the route is reached, whatever the method; when that
  fails the request ends in the framework's 400. Otherwise a GET or HEAD is answered
  by \<open>res.sendFile\<close> with the index document (a missing file ends in the framework's
  404), and every other method is passed on.
\<close>

definition spa_fallback :: "platform \<Rightarrow> request \<Rightarrow> outcome option" where
  "spa_fallback pf rq =
     (case decode_uri pf (req_path rq) of
        None \<Rightarrow> Some (Responded 400 Error_page)
      | Some whole \<Rightarrow>
          if is_get (req_method rq)
          then (case index_doc pf of
                  None \<Rightarrow> Some (Responded 404 Error_page)
                | Some f \<Rightarrow> Some (Responded 200 (File f)))
          else None)"

text \<open>
  The application: the \<open>cors\<close> middleware answers every OPTIONS request itself (204);
  then the API routes, the static files and the fallback are tried in order. A
  parameter that cannot be decoded ends in the framework's 400, a request that nothing
  takes in its 404.
\<close>

definition dispatch :: "platform \<Rightarrow> request \<Rightarrow> store \<Rightarrow> outcome \<times> store" where
  "dispatch pf rq s =
     (if req_method rq = OPTIONS then (Responded 204 NoContent, s)
      else case match_route (decode_uri pf) (req_method rq) (req_path rq) of
             Routed r \<Rightarrow> run_route r rq s
           | Bad_param \<Rightarrow> (Responded 400 Error_page, s)
           | Unrouted \<Rightarrow>
               (case express_static pf rq of
                  Some r \<Rightarrow> (r, s)
                | None \<Rightarrow>
                    (case spa_fallback pf rq of
                       Some r \<Rightarrow> (r, s)
                     | None \<Rightarrow> (Responded 404 Error_page, s))))"

section \<open>Notions used by the properties\<close>

text \<open>The \<open>typeof\<close> operator.\<close>

fun typeof :: "jsval \<Rightarrow> string" where
  "typeof JUndefined = ''undefined''"
| "typeof JNull = ''object''"
| "typeof (JBool b) = ''boolean''"
| "typeof (JNum n) = ''number''"
| "typeof (JStr s) = ''string''"
| "typeof (JArr vs) = ''object''"
| "typeof (JObj kvs) = ''object''"

text \<open>\<open>precedes x y zs\<close>: after the first \<open>x\<close> in \<open>zs\<close> there is a \<open>y\<close>.\<close>

fun precedes :: "'a \<Rightarrow> 'a \<Rightarrow> 'a list \<Rightarrow> bool" where
  "precedes x y [] = False"
| "precedes x y (z # zs) = (if z = x then y \<in> set zs else precedes x y zs)"

text \<open>The status code of a response.\<close>

fun status_of :: "outcome \<Rightarrow> nat option" where
  "status_of (Responded code b) = Some code"
| "status_of (Rejected e) = None"

section \<open>Sample data\<close>

text \<open>Concrete stores and requests at which the properties below are instantiated.\<close>

definition store_empty :: store where
  "store_empty = \<lparr>todos = [], quotes = [], next_id = 0, db_up = True, oplog = []\<rparr>"

definition todo_milk :: todo where
  "todo_milk = \<lparr>todo_id = 161, todo_text = js ''milk'', todo_completed = False,
                 todo_createdAt = 3, todo_updatedAt = 3\<rparr>"

definition id_milk :: jsstring where
  "id_milk = js ''0000000000000000000000a1''"

definition store_milk :: store where
  "store_milk = \<lparr>todos = [todo_milk], quotes = [], next_id = 162, db_up = True, oplog = []\<rparr>"

definition quote_zen :: quote where
  "quote_zen = \<lparr>quote_id = 7, quote_text = js ''Less is more'', quote_author = None,
                 quote_createdAt = 2, quote_updatedAt = 2\<rparr>"

definition store_zen :: store where
  "store_zen = \<lparr>todos = [], quotes = [quote_zen], next_id = 8, db_up = True, oplog = []\<rparr>"

text \<open>A decoder that accepts what has no percent sign, where decoding changes nothing.\<close>

definition plain_decode :: "jsstring \<Rightarrow> jsstring option" where
  "plain_decode x = (if 0x25 \<in> set x then None else Some x)"

text \<open>A file server with the single file \<open>/app.js\<close>.\<close>

definition serve_app_js :: "request \<Rightarrow> outcome option" where
  "serve_app_js rq =
     (if req_path rq = js ''/app.js'' then Some (Responded 200 (File ''run()'')) else None)"

definition sample_platform :: platform where
  "sample_platform =
     \<lparr>decode_uri = plain_decode, static_send = serve_app_js, index_doc = Some ''<html>''\<rparr>"

definition clock_from :: "nat \<Rightarrow> nat \<Rightarrow> nat" where
  "clock_from t k = t + k"

section \<open>Basic facts\<close>

lemma typeof_string: "typeof v = ''string'' \<longleftrightarrow> (\<exists>s. v = JStr s)"
  by (cases v) auto

lemma typeof_boolean: "typeof v = ''boolean'' \<longleftrightarrow> (\<exists>b. v = JBool b)"
  by (cases v) auto

lemma dropWhile_self: "xs = [] \<or> \<not> P (hd xs) \<Longrightarrow> dropWhile P xs = xs"
  by (cases xs) auto

lemma last_dropWhile_keep: "dropWhile P xs \<noteq> [] \<Longrightarrow> last (dropWhile P xs) = last xs"
proof -
  assume ne: "dropWhile P xs \<noteq> []"
  have "last xs = last (takeWhile P xs @ dropWhile P xs)" by simp
  also have "\<dots> = last (dropWhile P xs)" using ne by (rule last_appendR)
  finally show ?thesis by simp
qed

text \<open>Trimming twice is trimming once: what the handler has trimmed, the schema's
  \<open>trim: true\<close> leaves as it is.\<close>

lemma trim_trim: "trim (trim s) = trim s"
proof -
  define a where "a = dropWhile is_ws s"
  define b where "b = dropWhile is_ws (rev a)"
  have keep: "dropWhile is_ws (rev b) = rev b"
  proof (cases "b = []")
    case True
    then show ?thesis by simp
  next
    case False
    then have "last b = last (rev a)"
      unfolding b_def by (rule last_dropWhile_keep)
    moreover from False have "a \<noteq> []" unfolding b_def by auto
    ultimately have "hd (rev b) = hd a"
      using False by (simp add: hd_rev last_rev)
    moreover have "\<not> is_ws (hd a)"
      using \<open>a \<noteq> []\<close> unfolding a_def by (rule hd_dropWhile)
    ultimately show ?thesis by (intro dropWhile_self) simp
  qed
  have "trim s = rev b" by (simp add: trim_def a_def b_def)
  moreover have "trim (rev b) = rev (dropWhile is_ws b)"
    by (simp add: trim_def keep)
  moreover have "dropWhile is_ws b = b"
    unfolding b_def by (rule dropWhile_idem)
  ultimately show ?thesis by simp
qed

lemma required_text_trimmed:
  "trim t \<noteq> [] \<Longrightarrow> required_text (JStr (trim t)) = Inr (trim t)"
  by (simp add: required_text_def trim_trim)

lemma validate_updates_completed_only:
  "validate_updates \<lparr>upd_text = None, upd_completed = uc\<rparr>
     = Inr \<lparr>upd_text = None, upd_completed = uc\<rparr>"
  by (simp add: validate_updates_def)

lemma find_None_iff_id: "find (\<lambda>d. todo_id d = k) ds = None \<longleftrightarrow> k \<notin> todo_id ` set ds"
  by (induction ds) auto

lemma filter_other_ids_absent:
  "k \<notin> todo_id ` set ds \<Longrightarrow> filter (\<lambda>d. todo_id d \<noteq> k) ds = ds"
  by (induction ds) auto

lemma delete_first_distinct:
  "distinct (map todo_id ds) \<Longrightarrow> delete_first k ds = filter (\<lambda>d. todo_id d \<noteq> k) ds"
  by (induction ds) (auto simp: filter_other_ids_absent)

lemma length_delete_first:
  "k \<in> todo_id ` set ds \<Longrightarrow> Suc (length (delete_first k ds)) = length ds"
  by (induction ds) auto

text \<open>In a list sorted latest first, a later document stands before an earlier one.\<close>

lemma precedes_sorted:
  "sorted_wrt (\<lambda>x y. f y \<le> (f x :: nat)) zs \<Longrightarrow> a \<in> set zs \<Longrightarrow> b \<in> set zs \<Longrightarrow> f a < f b
     \<Longrightarrow> precedes b a zs"
proof (induction zs)
  case Nil
  then show ?case by simp
next
  case (Cons z zs)
  show ?case
  proof (cases "z = b")
    case True
    with Cons.prems have "a \<in> set zs" by auto
    with True show ?thesis by simp
  next
    case False
    with Cons.prems have b: "b \<in> set zs" by simp
    have "a \<noteq> z"
    proof
      assume "a = z"
      with Cons.prems(1) b have "f b \<le> f a" by simp
      with Cons.prems(4) show False by simp
    qed
    with Cons.prems have "a \<in> set zs" by simp
    with Cons b False show ?thesis by simp
  qed
qed

lemma newest_first_sorted:
  "sorted_wrt (\<lambda>x y. todo_createdAt y \<le> todo_createdAt x) (rev (sort_key todo_createdAt ds))"
proof -
  have "sorted (map todo_createdAt (sort_key todo_createdAt ds))" by (rule sorted_sort_key)
  then have "sorted_wrt (\<lambda>x y. todo_createdAt x \<le> todo_createdAt y) (sort_key todo_createdAt ds)"
    by (simp add: sorted_map)
  then show ?thesis by (simp add: sorted_wrt_rev)
qed

lemma todos_post_created:
  assumes "todos_post now body s = (Responded 201 (TodoDoc d), s')"
  shows "db_up s \<and> todo_createdAt d = now \<and> todos s' = todos s @ [d] \<and> db_up s' = db_up s"
  using assms
  by (auto simp: todos_post_def Todo_create_def logged_def Let_def
           split: sum.splits if_splits)

lemma todos_get_up:
  "db_up s \<Longrightarrow> todos_get s =
     (Responded 200 (TodoDocs (rev (sort_key todo_createdAt (todos s)))), logged Todo_find_call s)"
  by (simp add: todos_get_def Todo_find_sorted_def Let_def)

subsection \<open>Which handlers answer 400\<close>

lemma health_get_not_400: "status_of (fst (health_get now s)) \<noteq> Some 400"
  by (simp add: health_get_def)

lemma quotes_random_get_not_400: "status_of (fst (quotes_random_get rnd s)) \<noteq> Some 400"
  by (auto simp: quotes_random_get_def split: prod.splits sum.splits list.splits)

lemma todos_get_not_400: "status_of (fst (todos_get s)) \<noteq> Some 400"
  by (auto simp: todos_get_def split: prod.splits sum.splits)

lemma todos_delete_not_400: "status_of (fst (todos_delete ident s)) \<noteq> Some 400"
  by (auto simp: todos_delete_def split: prod.splits sum.splits option.splits)

lemma quotes_post_400:
  "status_of (fst (quotes_post now body s)) = Some 400 \<Longrightarrow> snd (quotes_post now body s) = s"
  by (auto simp: quotes_post_def Let_def
           split: jsval.splits prod.splits sum.splits if_splits)

lemma todos_post_400:
  "status_of (fst (todos_post now body s)) = Some 400 \<Longrightarrow> snd (todos_post now body s) = s"
  by (auto simp: todos_post_def split: prod.splits sum.splits if_splits)

lemma todos_patch_400:
  "status_of (fst (todos_patch now ident body s)) = Some 400
     \<Longrightarrow> snd (todos_patch now ident body s) = s"
  by (auto simp: todos_patch_def Let_def
           split: jsval.splits prod.splits sum.splits option.splits if_splits)

lemma run_route_400:
  "status_of (fst (run_route r rq s)) = Some 400 \<Longrightarrow> snd (run_route r rq s) = s"
  by (cases r)
     (simp_all add: health_get_not_400 quotes_random_get_not_400 todos_get_not_400
                    todos_delete_not_400 quotes_post_400 todos_post_400 todos_patch_400)

lemma dispatch_400:
  "status_of (fst (dispatch pf rq s)) = Some 400 \<Longrightarrow> snd (dispatch pf rq s) = s"
proof (cases "match_route (decode_uri pf) (req_method rq) (req_path rq)")
  case (Routed r)
  assume "status_of (fst (dispatch pf rq s)) = Some 400"
  with Routed show ?thesis
    by (cases "req_method rq = OPTIONS") (simp_all add: dispatch_def run_route_400)
next
  case Bad_param
  then show ?thesis by (simp add: dispatch_def)
next
  case Unrouted
  then show ?thesis by (simp add: dispatch_def split: option.splits)
qed

text \<open>
  The batch branch of \<open>POST /api/quotes\<close> has no check of its own: once the elements
  have been read, \<open>Quote.insertMany\<close> is called.
\<close>

lemma quotes_post_batch_calls_insertMany:
  assumes "opt_prop (js_or body (JObj [])) (js ''quotes'') = JArr qs"
    and "map_quotes qs = Inr docs"
  shows "oplog (snd (quotes_post clock body s)) = oplog s @ [Quote_insertMany_call]"
  using assms
  by (auto simp: quotes_post_def Quote_insertMany_def logged_def Let_def
           split: sum.splits prod.splits if_splits)

text \<open>
  \<open>POST /api/todos\<close> with a \<open>text\<close> that is truthy and not a string: \<open>.trim()\<close> throws
  before the \<open>try\<close>, so the handler sends no response at all.
\<close>

lemma todos_post_non_string_text:
  assumes "opt_prop body (js ''text'') = v" and "truthy v" and "typeof v \<noteq> ''string''"
  shows "todos_post now body s = (Rejected TypeError, s)"
  using assms by (cases v) (simp_all add: todos_post_def js_or_def)

text \<open>The sample identifier is the ObjectId of the sample todo.\<close>

lemma parse_id_milk: "parse_oid id_milk = Some 161"
  by (simp add: id_milk_def parse_oid_def js_def hex_val_def)

section \<open>Identifiers that are not ObjectIds\<close>

text \<open>
  Claim C1, as the code has it. A DELETE or PATCH \<open>/api/todos/:id\<close> whose identifier is
  not an ObjectId is not answered as a validation error. DELETE hands the identifier to
  the storage call, whose cast error is caught: the answer is 500 with the generic
  message. PATCH checks the body first: a \<open>text\<close> that is a string and blank is answered
  400 ("Text cannot be empty"), a body with neither a string \<open>text\<close> nor a boolean
  \<open>completed\<close> is answered 400 ("No valid fields to update"), both with the store as it
  was; every other body leads to the storage call and to 500 in the same way as
  DELETE. The todo collection is unchanged throughout.
\<close>

theorem malformed_id_server_error:
  assumes "parse_oid ident = None"
  shows "todos_delete ident s =
           (Responded 500 (Message ''Failed to delete todo''),
            s\<lparr>oplog := oplog s @ [Todo_findByIdAndDelete_call]\<rparr>)
       \<and> (opt_prop body (js ''text'') = JStr t \<and> trim t = [] \<longrightarrow>
            todos_patch now ident body s =
              (Responded 400 (Message ''Text cannot be empty''), s))
       \<and> (typeof (opt_prop body (js ''text'')) \<noteq> ''string''
            \<and> typeof (opt_prop body (js ''completed'')) \<noteq> ''boolean'' \<longrightarrow>
            todos_patch now ident body s =
              (Responded 400 (Message ''No valid fields to update''), s))
       \<and> ((opt_prop body (js ''text'') = JStr t \<and> trim t \<noteq> [])
           \<or> (typeof (opt_prop body (js ''text'')) \<noteq> ''string''
                \<and> typeof (opt_prop body (js ''completed'')) = ''boolean'') \<longrightarrow>
            todos_patch now ident body s =
              (Responded 500 (Message ''Failed to update todo''),
               s\<lparr>oplog := oplog s @ [Todo_findByIdAndUpdate_call]\<rparr>))"
proof (intro conjI impI)
  show "todos_delete ident s =
           (Responded 500 (Message ''Failed to delete todo''),
            s\<lparr>oplog := oplog s @ [Todo_findByIdAndDelete_call]\<rparr>)"
    using assms by (simp add: todos_delete_def Todo_findByIdAndDelete_def logged_def)
next
  assume "opt_prop body (js ''text'') = JStr t \<and> trim t = []"
  then show "todos_patch now ident body s =
               (Responded 400 (Message ''Text cannot be empty''), s)"
    by (simp add: todos_patch_def)
next
  assume h: "typeof (opt_prop body (js ''text'')) \<noteq> ''string''
            \<and> typeof (opt_prop body (js ''completed'')) \<noteq> ''boolean''"
  then have "\<forall>c. opt_prop body (js ''completed'') \<noteq> JBool c"
    by auto
  with h show "todos_patch now ident body s =
               (Responded 400 (Message ''No valid fields to update''), s)"
    unfolding todos_patch_def typeof_string
    by (auto split: jsval.splits)
next
  assume "(opt_prop body (js ''text'') = JStr t \<and> trim t \<noteq> [])
           \<or> (typeof (opt_prop body (js ''text'')) \<noteq> ''string''
                \<and> typeof (opt_prop body (js ''completed'')) = ''boolean'')"
  then show "todos_patch now ident body s =
              (Responded 500 (Message ''Failed to update todo''),
               s\<lparr>oplog := oplog s @ [Todo_findByIdAndUpdate_call]\<rparr>)"
    using assms unfolding typeof_string typeof_boolean
    by (auto simp: todos_patch_def Todo_findByIdAndUpdate_def logged_def Let_def
             split: jsval.splits)
qed

theorem malformed_id_server_error_witness:
  "parse_oid (js ''not-an-id'') = None
   \<and> todos_delete (js ''not-an-id'') store_milk =
       (Responded 500 (Message ''Failed to delete todo''),
        store_milk\<lparr>oplog := [Todo_findByIdAndDelete_call]\<rparr>)
   \<and> opt_prop (JObj [(js ''text'', JStr (js ''  ''))]) (js ''text'') = JStr (js ''  '')
   \<and> trim (js ''  '') = []
   \<and> todos_patch 9 (js ''not-an-id'') (JObj [(js ''text'', JStr (js ''  ''))]) store_milk =
       (Responded 400 (Message ''Text cannot be empty''), store_milk)
   \<and> typeof (opt_prop (JObj [(js ''text'', JNum 7)]) (js ''text'')) \<noteq> ''string''
   \<and> typeof (opt_prop (JObj [(js ''text'', JNum 7)]) (js ''completed'')) \<noteq> ''boolean''
   \<and> todos_patch 9 (js ''not-an-id'') (JObj [(js ''text'', JNum 7)]) store_milk =
       (Responded 400 (Message ''No valid fields to update''), store_milk)
   \<and> opt_prop (JObj [(js ''text'', JStr (js '' eggs ''))]) (js ''text'') = JStr (js '' eggs '')
   \<and> trim (js '' eggs '') \<noteq> []
   \<and> todos_patch 9 (js ''not-an-id'') (JObj [(js ''text'', JStr (js '' eggs ''))]) store_milk =
       (Responded 500 (Message ''Failed to update todo''),
        store_milk\<lparr>oplog := [Todo_findByIdAndUpdate_call]\<rparr>)"
proof -
  let ?blank = "JObj [(js ''text'', JStr (js ''  ''))]"
  let ?num = "JObj [(js ''text'', JNum 7)]"
  let ?eggs = "JObj [(js ''text'', JStr (js '' eggs ''))]"
  have bad: "parse_oid (js ''not-an-id'') = None"
    by (simp add: parse_oid_def js_def)
  have b1: "opt_prop ?blank (js ''text'') = JStr (js ''  '')"
    by (simp add: opt_prop_def js_def)
  have b2: "trim (js ''  '') = []"
    by (simp add: trim_def js_def is_ws_def)
  have n1: "typeof (opt_prop ?num (js ''text'')) \<noteq> ''string''"
    by (simp add: opt_prop_def js_def)
  have n2: "typeof (opt_prop ?num (js ''completed'')) \<noteq> ''boolean''"
    by (simp add: opt_prop_def js_def)
  have e1: "opt_prop ?eggs (js ''text'') = JStr (js '' eggs '')"
    by (simp add: opt_prop_def js_def)
  have e2: "trim (js '' eggs '') \<noteq> []"
    by (simp add: trim_def js_def is_ws_def)
  have emp: "oplog store_milk = []"
    by (simp add: store_milk_def)
  from malformed_id_server_error [OF bad, where s = store_milk] emp
  have del: "todos_delete (js ''not-an-id'') store_milk =
       (Responded 500 (Message ''Failed to delete todo''),
        store_milk\<lparr>oplog := [Todo_findByIdAndDelete_call]\<rparr>)"
    by simp
  from malformed_id_server_error
         [OF bad, where s = store_milk and t = "js ''  ''" and now = 9 and body = ?blank]
       b1 b2
  have one: "todos_patch 9 (js ''not-an-id'') ?blank store_milk =
       (Responded 400 (Message ''Text cannot be empty''), store_milk)"
    by blast
  from malformed_id_server_error [OF bad, where s = store_milk and now = 9 and body = ?num]
       n1 n2
  have two: "todos_patch 9 (js ''not-an-id'') ?num store_milk =
       (Responded 400 (Message ''No valid fields to update''), store_milk)"
    by blast
  from malformed_id_server_error
         [OF bad, where s = store_milk and t = "js '' eggs ''" and now = 9 and body = ?eggs]
       e1 e2 emp
  have three: "todos_patch 9 (js ''not-an-id'') ?eggs store_milk =
       (Responded 500 (Message ''Failed to update todo''),
        store_milk\<lparr>oplog := [Todo_findByIdAndUpdate_call]\<rparr>)"
    by simp
  from bad del b1 b2 one n1 n2 two e1 e2 three show ?thesis by blast
qed

text \<open>
  Claim C1 as stated fails: DELETE \<open>/api/todos/abc\<close> is answered 500, not 400.
\<close>

theorem malformed_id_counterexample:
  "parse_oid (js ''abc'') = None
   \<and> todos_delete (js ''abc'')
       \<lparr>todos = [], quotes = [], next_id = 0, db_up = True, oplog = []\<rparr>
     = (Responded 500 (Message ''Failed to delete todo''),
        \<lparr>todos = [], quotes = [], next_id = 0, db_up = True,
          oplog = [Todo_findByIdAndDelete_call]\<rparr>)"
  by (simp add: todos_delete_def Todo_findByIdAndDelete_def parse_oid_def js_def logged_def)

section \<open>Validation and storage calls\<close>

text \<open>
  Claim C2, as the code has it. Every validation error that a handler signals is
  signalled before any storage call: whenever a request is answered 400, the store and
  its call log are as before. In particular a \<open>POST /api/quotes\<close> in single-item form
  whose text is missing, empty or white space only is answered 400 ("Text is required")
  and results in no storage call.
\<close>

theorem handler_validation_precedes_storage:
  "(status_of (fst (dispatch pf rq s)) = Some 400 \<longrightarrow> snd (dispatch pf rq s) = s)
 \<and> ((\<forall>qs. opt_prop (js_or body (JObj [])) (js ''quotes'') \<noteq> JArr qs)
      \<and> (\<not> truthy (opt_prop (js_or body (JObj [])) (js ''text''))
           \<or> (\<exists>t. opt_prop (js_or body (JObj [])) (js ''text'') = JStr t \<and> trim t = []))
      \<longrightarrow> quotes_post clock body s = (Responded 400 (Message ''Text is required''), s))"
proof (intro conjI impI)
  assume "status_of (fst (dispatch pf rq s)) = Some 400"
  then show "snd (dispatch pf rq s) = s" by (rule dispatch_400)
next
  assume h: "(\<forall>qs. opt_prop (js_or body (JObj [])) (js ''quotes'') \<noteq> JArr qs)
      \<and> (\<not> truthy (opt_prop (js_or body (JObj [])) (js ''text''))
           \<or> (\<exists>t. opt_prop (js_or body (JObj [])) (js ''text'') = JStr t \<and> trim t = []))"
  then have "call_trim (js_or (opt_prop (js_or body (JObj [])) (js ''text'')) (JStr [])) = Inr []"
    by (auto simp: js_or_def trim_def)
  with h show "quotes_post clock body s = (Responded 400 (Message ''Text is required''), s)"
    by (cases "opt_prop (js_or body (JObj [])) (js ''quotes'')")
       (simp_all add: quotes_post_def Let_def)
qed

theorem handler_validation_precedes_storage_witness:
  "status_of (fst (dispatch sample_platform
       \<lparr>req_method = POST, req_path = js ''/api/todos'',
         req_body = JObj [(js ''text'', JStr (js ''  ''))], req_clock = clock_from 4,
         req_rnd = 0\<rparr>
       store_milk)) = Some 400
   \<and> snd (dispatch sample_platform
       \<lparr>req_method = POST, req_path = js ''/api/todos'',
         req_body = JObj [(js ''text'', JStr (js ''  ''))], req_clock = clock_from 4,
         req_rnd = 0\<rparr>
       store_milk) = store_milk
   \<and> opt_prop (js_or (JObj [(js ''text'', JStr (js ''  '')), (js ''author'', JStr (js ''anon''))])
                      (JObj [])) (js ''quotes'') = JUndefined
   \<and> opt_prop (js_or (JObj [(js ''text'', JStr (js ''  '')), (js ''author'', JStr (js ''anon''))])
                      (JObj [])) (js ''text'') = JStr (js ''  '')
   \<and> trim (js ''  '') = []
   \<and> quotes_post (clock_from 4)
         (JObj [(js ''text'', JStr (js ''  '')), (js ''author'', JStr (js ''anon''))])
       store_zen = (Responded 400 (Message ''Text is required''), store_zen)"
proof -
  let ?rq = "\<lparr>req_method = POST, req_path = js ''/api/todos'',
         req_body = JObj [(js ''text'', JStr (js ''  ''))], req_clock = clock_from 4,
         req_rnd = 0\<rparr>"
  let ?single = "JObj [(js ''text'', JStr (js ''  '')), (js ''author'', JStr (js ''anon''))]"
  have st: "status_of (fst (dispatch sample_platform ?rq store_milk)) = Some 400"
    by (simp add: dispatch_def match_route_def path_is_def ci_eq_def upper_ascii_def
                  is_get_def todos_post_def opt_prop_def js_or_def trim_def is_ws_def js_def)
  have q: "opt_prop (js_or ?single (JObj [])) (js ''quotes'') = JUndefined"
    by (simp add: opt_prop_def js_or_def js_def)
  have tx: "opt_prop (js_or ?single (JObj [])) (js ''text'') = JStr (js ''  '')"
    by (simp add: opt_prop_def js_or_def js_def)
  have bl: "trim (js ''  '') = []"
    by (simp add: js_def trim_def is_ws_def)
  from q have nb: "\<forall>qs. opt_prop (js_or ?single (JObj [])) (js ''quotes'') \<noteq> JArr qs"
    by simp
  from handler_validation_precedes_storage [where pf = sample_platform and rq = ?rq and s = store_milk] st
  have one: "snd (dispatch sample_platform ?rq store_milk) = store_milk" by blast
  from handler_validation_precedes_storage [where s = store_zen and body = ?single and clock = "clock_from 4"]
       nb tx bl
  have two: "quotes_post (clock_from 4) ?single store_zen
               = (Responded 400 (Message ''Text is required''), store_zen)"
    by blast
  from st one q tx bl two show ?thesis by blast
qed

text \<open>
  Claim C2 as stated fails: a batch whose only element has a text of three spaces
  reaches \<open>Quote.insertMany\<close>; the schema rejects it there and the answer is 500.
\<close>

theorem batch_blank_text_counterexample:
  "quotes_post (clock_from 5)
     (JObj [(js ''quotes'', JArr [JObj [(js ''text'', JStr (js ''   '')),
                                         (js ''author'', JStr (js ''anon''))]])])
     \<lparr>todos = [], quotes = [], next_id = 0, db_up = True, oplog = []\<rparr>
   = (Responded 500 (Message ''Failed to insert quotes''),
      \<lparr>todos = [], quotes = [], next_id = 0, db_up = True,
        oplog = [Quote_insertMany_call]\<rparr>)"
  by (simp add: quotes_post_def js_or_def opt_prop_def js_def Quote_insertMany_def
                quote_fields_def required_text_def trim_def is_ws_def logged_def)

section \<open>Updating a todo\<close>

text \<open>
  Claim C3. A PATCH \<open>/api/todos/:id\<close> whose body has neither a string \<open>text\<close> nor a
  boolean \<open>completed\<close> is answered 400 with the message "No valid fields to update";
  the store is returned as it was, so no storage call is made and no todo is changed.
\<close>

theorem patch_no_valid_fields:
  assumes "typeof (opt_prop body (js ''text'')) \<noteq> ''string''"
    and "typeof (opt_prop body (js ''completed'')) \<noteq> ''boolean''"
  shows "todos_patch now ident body s =
           (Responded 400 (Message ''No valid fields to update''), s)"
proof -
  from assms(2) have "\<forall>c. opt_prop body (js ''completed'') \<noteq> JBool c"
    by auto
  with assms(1) show ?thesis
    unfolding todos_patch_def typeof_string
    by (auto split: jsval.splits)
qed

theorem patch_no_valid_fields_witness:
  "typeof (opt_prop (JObj [(js ''text'', JNum 7), (js ''done'', JBool True)]) (js ''text''))
     \<noteq> ''string''
   \<and> typeof (opt_prop (JObj [(js ''text'', JNum 7), (js ''done'', JBool True)])
               (js ''completed'')) \<noteq> ''boolean''
   \<and> todos_patch 9 id_milk (JObj [(js ''text'', JNum 7), (js ''done'', JBool True)]) store_milk
       = (Responded 400 (Message ''No valid fields to update''), store_milk)"
proof -
  let ?body = "JObj [(js ''text'', JNum 7), (js ''done'', JBool True)]"
  have a: "typeof (opt_prop ?body (js ''text'')) \<noteq> ''string''"
    by (simp add: opt_prop_def js_def)
  have b: "typeof (opt_prop ?body (js ''completed'')) \<noteq> ''boolean''"
    by (simp add: opt_prop_def js_def)
  from patch_no_valid_fields [OF a b, where now = 9 and ident = id_milk and s = store_milk] a b
  show ?thesis by blast
qed

text \<open>
  Claim C9. A PATCH \<open>/api/todos/:id\<close> whose body has a \<open>text\<close> that is not a string and
  a boolean \<open>completed\<close> is not rejected: the handler does what it does for the update
  \<open>{ completed }\<close> alone, never answers 400, always makes the storage call, and, when
  the identifier names a stored todo and the database answers, returns that todo with
  only \<open>completed\<close> (and \<open>updatedAt\<close>) changed.
\<close>

theorem patch_ignores_non_string_text:
  assumes "typeof (opt_prop body (js ''text'')) \<noteq> ''string''"
    and "opt_prop body (js ''completed'') = JBool c"
  shows "todos_patch now ident body s =
           (case Todo_findByIdAndUpdate now ident \<lparr>upd_text = None, upd_completed = Some c\<rparr> s of
              (Inl err, s') \<Rightarrow> (Responded 500 (Message ''Failed to update todo''), s')
            | (Inr None, s') \<Rightarrow> (Responded 404 (Message ''Todo not found''), s')
            | (Inr (Some t), s') \<Rightarrow> (Responded 200 (TodoDoc t), s'))
         \<and> status_of (fst (todos_patch now ident body s)) \<noteq> Some 400
         \<and> oplog (snd (todos_patch now ident body s)) = oplog s @ [Todo_findByIdAndUpdate_call]
         \<and> (\<forall>k d. parse_oid ident = Some k \<and> db_up s
                   \<and> find (\<lambda>d. todo_id d = k) (todos s) = Some d \<longrightarrow>
               todos_patch now ident body s =
                 (Responded 200 (TodoDoc (d\<lparr>todo_completed := c, todo_updatedAt := now\<rparr>)),
                  s\<lparr>todos := update_first k
                                (\<lambda>d. d\<lparr>todo_completed := c, todo_updatedAt := now\<rparr>) (todos s),
                    oplog := oplog s @ [Todo_findByIdAndUpdate_call]\<rparr>))"
proof -
  have eq: "todos_patch now ident body s =
           (case Todo_findByIdAndUpdate now ident \<lparr>upd_text = None, upd_completed = Some c\<rparr> s of
              (Inl err, s') \<Rightarrow> (Responded 500 (Message ''Failed to update todo''), s')
            | (Inr None, s') \<Rightarrow> (Responded 404 (Message ''Todo not found''), s')
            | (Inr (Some t), s') \<Rightarrow> (Responded 200 (TodoDoc t), s'))"
    using assms unfolding todos_patch_def typeof_string
    by (auto split: jsval.splits)
  have st: "status_of (fst (todos_patch now ident body s)) \<noteq> Some 400"
    unfolding eq by (auto split: prod.splits sum.splits option.splits)
  have lg: "oplog (snd (todos_patch now ident body s)) = oplog s @ [Todo_findByIdAndUpdate_call]"
    unfolding eq
    by (auto simp: Todo_findByIdAndUpdate_def validate_updates_completed_only logged_def Let_def
             split: prod.splits sum.splits option.splits if_splits)
  have ap: "apply_updates now \<lparr>upd_text = None, upd_completed = Some c\<rparr>
             = (\<lambda>d. d\<lparr>todo_completed := c, todo_updatedAt := now\<rparr>)"
    by (rule ext) (simp add: apply_updates_def)
  have ok: "\<forall>k d. parse_oid ident = Some k \<and> db_up s
                   \<and> find (\<lambda>d. todo_id d = k) (todos s) = Some d \<longrightarrow>
               todos_patch now ident body s =
                 (Responded 200 (TodoDoc (d\<lparr>todo_completed := c, todo_updatedAt := now\<rparr>)),
                  s\<lparr>todos := update_first k
                                (\<lambda>d. d\<lparr>todo_completed := c, todo_updatedAt := now\<rparr>) (todos s),
                    oplog := oplog s @ [Todo_findByIdAndUpdate_call]\<rparr>)"
    unfolding eq
    by (simp add: Todo_findByIdAndUpdate_def validate_updates_completed_only logged_def Let_def ap)
  from eq st lg ok show ?thesis by blast
qed

theorem patch_ignores_non_string_text_witness:
  "typeof (opt_prop (JObj [(js ''text'', JNum 7), (js ''completed'', JBool True)]) (js ''text''))
     \<noteq> ''string''
   \<and> opt_prop (JObj [(js ''text'', JNum 7), (js ''completed'', JBool True)]) (js ''completed'')
       = JBool True
   \<and> parse_oid id_milk = Some 161
   \<and> db_up store_milk
   \<and> find (\<lambda>d. todo_id d = 161) (todos store_milk) = Some todo_milk
   \<and> todos_patch 9 id_milk (JObj [(js ''text'', JNum 7), (js ''completed'', JBool True)])
         store_milk
       = (Responded 200
            (TodoDoc \<lparr>todo_id = 161, todo_text = js ''milk'', todo_completed = True,
                      todo_createdAt = 3, todo_updatedAt = 9\<rparr>),
          \<lparr>todos = [\<lparr>todo_id = 161, todo_text = js ''milk'', todo_completed = True,
                      todo_createdAt = 3, todo_updatedAt = 9\<rparr>],
            quotes = [], next_id = 162, db_up = True,
            oplog = [Todo_findByIdAndUpdate_call]\<rparr>)"
proof -
  let ?body = "JObj [(js ''text'', JNum 7), (js ''completed'', JBool True)]"
  have a: "typeof (opt_prop ?body (js ''text'')) \<noteq> ''string''"
    by (simp add: opt_prop_def js_def)
  have b: "opt_prop ?body (js ''completed'') = JBool True"
    by (simp add: opt_prop_def js_def)
  have u: "db_up store_milk"
    by (simp add: store_milk_def)
  have f: "find (\<lambda>d. todo_id d = 161) (todos store_milk) = Some todo_milk"
    by (simp add: store_milk_def todo_milk_def)
  from patch_ignores_non_string_text [OF a b, where now = 9 and ident = id_milk and s = store_milk]
  have "\<forall>k d. parse_oid id_milk = Some k \<and> db_up store_milk
                   \<and> find (\<lambda>d. todo_id d = k) (todos store_milk) = Some d \<longrightarrow>
               todos_patch 9 id_milk ?body store_milk =
                 (Responded 200 (TodoDoc (d\<lparr>todo_completed := True, todo_updatedAt := 9\<rparr>)),
                  store_milk\<lparr>todos := update_first k
                                (\<lambda>d. d\<lparr>todo_completed := True, todo_updatedAt := 9\<rparr>)
                                (todos store_milk),
                    oplog := oplog store_milk @ [Todo_findByIdAndUpdate_call]\<rparr>)"
    by blast
  with parse_id_milk u f
  have "todos_patch 9 id_milk ?body store_milk =
          (Responded 200 (TodoDoc (todo_milk\<lparr>todo_completed := True, todo_updatedAt := 9\<rparr>)),
           store_milk\<lparr>todos := update_first 161
                                (\<lambda>d. d\<lparr>todo_completed := True, todo_updatedAt := 9\<rparr>)
                                (todos store_milk),
                    oplog := oplog store_milk @ [Todo_findByIdAndUpdate_call]\<rparr>)"
    by blast
  then have "todos_patch 9 id_milk ?body store_milk
       = (Responded 200
            (TodoDoc \<lparr>todo_id = 161, todo_text = js ''milk'', todo_completed = True,
                      todo_createdAt = 3, todo_updatedAt = 9\<rparr>),
          \<lparr>todos = [\<lparr>todo_id = 161, todo_text = js ''milk'', todo_completed = True,
                      todo_createdAt = 3, todo_updatedAt = 9\<rparr>],
            quotes = [], next_id = 162, db_up = True,
            oplog = [Todo_findByIdAndUpdate_call]\<rparr>)"
    by (simp add: store_milk_def todo_milk_def)
  with a b parse_id_milk u f show ?thesis by blast
qed

section \<open>Inserting quotes\<close>

text \<open>
  Claim C10. A \<open>POST /api/quotes\<close> whose body has \<open>quotes\<close> as an empty array is
  answered 201 with an empty array; the collections are as before (no document is
  created), and no validation error is raised.
\<close>

theorem quotes_post_empty_batch:
  assumes "get_prop body (js ''quotes'') = Inr (JArr [])"
  shows "quotes_post clock body s =
           (Responded 201 (QuoteDocs []), s\<lparr>oplog := oplog s @ [Quote_insertMany_call]\<rparr>)"
proof -
  have t: "truthy body" using assms by (cases body) auto
  have "opt_prop body (js ''quotes'') = JArr []" using assms by (simp add: opt_prop_def)
  then show ?thesis using t
    by (simp add: quotes_post_def js_or_def Quote_insertMany_def logged_def)
qed

theorem quotes_post_empty_batch_witness:
  "get_prop (JObj [(js ''quotes'', JArr [])]) (js ''quotes'') = Inr (JArr [])
   \<and> quotes_post (clock_from 4) (JObj [(js ''quotes'', JArr [])]) store_zen =
       (Responded 201 (QuoteDocs []),
        \<lparr>todos = [], quotes = [quote_zen], next_id = 8, db_up = True,
          oplog = [Quote_insertMany_call]\<rparr>)"
proof -
  have a: "get_prop (JObj [(js ''quotes'', JArr [])]) (js ''quotes'') = Inr (JArr [])"
    by simp
  from quotes_post_empty_batch [OF a, where clock = "clock_from 4" and s = store_zen] a
  show ?thesis by (simp add: store_zen_def)
qed

section \<open>A random quote\<close>

text \<open>
  Claim C7. While the database answers, \<open>GET /api/quotes/random\<close> on an empty quote
  collection is answered 404 ("No quotes found"), with no default quote; on a
  non-empty collection it is answered 200 with one of the stored quotes, and on a
  collection of exactly one quote with that quote, whatever the random choice.
\<close>

theorem quotes_random:
  assumes "db_up s"
  shows "(quotes s = [] \<longrightarrow>
            quotes_random_get rnd s =
              (Responded 404 (Message ''No quotes found''), logged Quote_aggregate_call s))
       \<and> (quotes s \<noteq> [] \<longrightarrow>
            (\<exists>q \<in> set (quotes s). quotes_random_get rnd s =
              (Responded 200 (QuoteDoc q), logged Quote_aggregate_call s)))
       \<and> (\<forall>q. quotes s = [q] \<longrightarrow>
            quotes_random_get rnd s =
              (Responded 200 (QuoteDoc q), logged Quote_aggregate_call s))"
  using assms
  by (auto simp: quotes_random_get_def Quote_aggregate_sample_def Let_def)

theorem quotes_random_witness:
  "db_up store_empty \<and> quotes store_empty = []
   \<and> quotes_random_get 5 store_empty =
       (Responded 404 (Message ''No quotes found''), logged Quote_aggregate_call store_empty)
   \<and> db_up store_zen \<and> quotes store_zen = [quote_zen] \<and> quotes store_zen \<noteq> []
   \<and> quote_zen \<in> set (quotes store_zen)
   \<and> quotes_random_get 5 store_zen =
       (Responded 200 (QuoteDoc quote_zen), logged Quote_aggregate_call store_zen)"
proof -
  have e: "db_up store_empty" "quotes store_empty = []"
    by (simp_all add: store_empty_def)
  have z: "db_up store_zen" "quotes store_zen = [quote_zen]"
    by (simp_all add: store_zen_def)
  from quotes_random [OF e(1), where rnd = 5] e(2)
  have one: "quotes_random_get 5 store_empty =
       (Responded 404 (Message ''No quotes found''), logged Quote_aggregate_call store_empty)"
    by blast
  from quotes_random [OF z(1), where rnd = 5] z(2)
  have two: "quotes_random_get 5 store_zen =
       (Responded 200 (QuoteDoc quote_zen), logged Quote_aggregate_call store_zen)"
    by blast
  from e z one two show ?thesis by simp
qed

section \<open>Creating a todo\<close>

text \<open>
  \<open>POST /api/todos\<close> with a text that is missing, falsy or a string: when it is missing
  or falsy, or a string that is empty after trimming, the answer is 400 ("Text is
  required") and the store is as before. When it is a string that is not empty after
  trimming, and the database answers, a todo is appended whose text is the trimmed
  input, whose \<open>completed\<close> is false and whose identifier and timestamps are assigned,
  and it is returned with 201.
\<close>

lemma todos_post_valid_text:
  "(\<not> truthy (opt_prop body (js ''text'')) \<longrightarrow>
      todos_post now body s = (Responded 400 (Message ''Text is required''), s))
 \<and> (opt_prop body (js ''text'') = JStr t \<and> trim t = [] \<longrightarrow>
      todos_post now body s = (Responded 400 (Message ''Text is required''), s))
 \<and> (opt_prop body (js ''text'') = JStr t \<and> trim t \<noteq> [] \<and> db_up s \<longrightarrow>
      todos_post now body s =
        (Responded 201
           (TodoDoc \<lparr>todo_id = next_id s, todo_text = trim t, todo_completed = False,
                     todo_createdAt = now, todo_updatedAt = now\<rparr>),
         s\<lparr>todos := todos s @ [\<lparr>todo_id = next_id s, todo_text = trim t,
                                 todo_completed = False, todo_createdAt = now,
                                 todo_updatedAt = now\<rparr>],
           next_id := Suc (next_id s),
           oplog := oplog s @ [Todo_create_call]\<rparr>))"
proof (intro conjI impI)
  assume "\<not> truthy (opt_prop body (js ''text''))"
  then show "todos_post now body s = (Responded 400 (Message ''Text is required''), s)"
    by (simp add: todos_post_def js_or_def trim_def)
next
  assume "opt_prop body (js ''text'') = JStr t \<and> trim t = []"
  then show "todos_post now body s = (Responded 400 (Message ''Text is required''), s)"
    by (cases "t = []") (auto simp: todos_post_def js_or_def trim_def)
next
  assume a: "opt_prop body (js ''text'') = JStr t \<and> trim t \<noteq> [] \<and> db_up s"
  then have "t \<noteq> []" by (auto simp: trim_def)
  with a show "todos_post now body s =
        (Responded 201
           (TodoDoc \<lparr>todo_id = next_id s, todo_text = trim t, todo_completed = False,
                     todo_createdAt = now, todo_updatedAt = now\<rparr>),
         s\<lparr>todos := todos s @ [\<lparr>todo_id = next_id s, todo_text = trim t,
                                 todo_completed = False, todo_createdAt = now,
                                 todo_updatedAt = now\<rparr>],
           next_id := Suc (next_id s),
           oplog := oplog s @ [Todo_create_call]\<rparr>)"
    by (simp add: todos_post_def js_or_def Todo_create_def required_text_trimmed
                  logged_def Let_def)
qed

text \<open>
  Claim C4 asks that every \<open>POST /api/todos\<close> be answered either 400, when the supplied
  text is blank, or 201 with the created todo. The handler does neither for a text that
  is truthy and not a string: at the body \<open>{ text: 5 }\<close> the call \<open>(5 || '').trim()\<close>
  throws before the \<open>try\<close>, so the handler sends no response and nothing is stored.
\<close>

theorem todos_post_number_text_unanswered:
  "todos_post 5 (JObj [(js ''text'', JNum 5)])
     \<lparr>todos = [], quotes = [], next_id = 0, db_up = True, oplog = []\<rparr>
   = (Rejected TypeError,
      \<lparr>todos = [], quotes = [], next_id = 0, db_up = True, oplog = []\<rparr>)"
  by (simp add: todos_post_def opt_prop_def js_or_def js_def)

section \<open>Listing todos\<close>

text \<open>
  Claim C5. While the database answers, \<open>GET /api/todos\<close> is answered 200 with every
  stored todo, ordered by creation time, latest first: of two stored todos the one
  created later stands before the other. An empty collection gives the empty array
  with 200. In particular, after todo A and then, at a later clock reading, todo B
  have been created, the listing has B before A.
\<close>

theorem todos_get_newest_first:
  assumes "db_up s"
  shows "(\<exists>ts. todos_get s = (Responded 200 (TodoDocs ts), logged Todo_find_call s)
            \<and> mset ts = mset (todos s)
            \<and> sorted_wrt (\<lambda>x y. todo_createdAt y \<le> todo_createdAt x) ts
            \<and> (\<forall>a b. a \<in> set (todos s) \<and> b \<in> set (todos s)
                      \<and> todo_createdAt a < todo_createdAt b \<longrightarrow> precedes b a ts))
       \<and> (todos s = [] \<longrightarrow>
            todos_get s = (Responded 200 (TodoDocs []), logged Todo_find_call s))
       \<and> (\<forall>ta tb body_a body_b a b s1 s2 ts s3.
            todos_post ta body_a s = (Responded 201 (TodoDoc a), s1)
            \<and> todos_post tb body_b s1 = (Responded 201 (TodoDoc b), s2)
            \<and> ta < tb
            \<and> todos_get s2 = (Responded 200 (TodoDocs ts), s3)
            \<longrightarrow> precedes b a ts)"
proof (intro conjI allI impI)
  let ?ts = "rev (sort_key todo_createdAt (todos s))"
  have "todos_get s = (Responded 200 (TodoDocs ?ts), logged Todo_find_call s)"
    using assms by (rule todos_get_up)
  moreover have "mset ?ts = mset (todos s)" by simp
  moreover have srt: "sorted_wrt (\<lambda>x y. todo_createdAt y \<le> todo_createdAt x) ?ts"
    by (rule newest_first_sorted)
  moreover have "\<forall>a b. a \<in> set (todos s) \<and> b \<in> set (todos s)
                      \<and> todo_createdAt a < todo_createdAt b \<longrightarrow> precedes b a ?ts"
    using precedes_sorted [OF srt] by simp
  ultimately show "\<exists>ts. todos_get s = (Responded 200 (TodoDocs ts), logged Todo_find_call s)
            \<and> mset ts = mset (todos s)
            \<and> sorted_wrt (\<lambda>x y. todo_createdAt y \<le> todo_createdAt x) ts
            \<and> (\<forall>a b. a \<in> set (todos s) \<and> b \<in> set (todos s)
                      \<and> todo_createdAt a < todo_createdAt b \<longrightarrow> precedes b a ts)"
    by blast
next
  assume "todos s = []"
  then show "todos_get s = (Responded 200 (TodoDocs []), logged Todo_find_call s)"
    using assms by (simp add: todos_get_up)
next
  fix ta tb body_a body_b a b s1 s2 ts s3
  assume h: "todos_post ta body_a s = (Responded 201 (TodoDoc a), s1)
            \<and> todos_post tb body_b s1 = (Responded 201 (TodoDoc b), s2)
            \<and> ta < tb
            \<and> todos_get s2 = (Responded 200 (TodoDocs ts), s3)"
  from h have A: "todo_createdAt a = ta \<and> todos s1 = todos s @ [a]"
    using todos_post_created [of ta body_a s a s1] by simp
  from h have B: "db_up s1 \<and> todo_createdAt b = tb \<and> todos s2 = todos s1 @ [b]
                  \<and> db_up s2 = db_up s1"
    using todos_post_created [of tb body_b s1 b s2] by simp
  from B have "db_up s2" by simp
  then have "todos_get s2 =
     (Responded 200 (TodoDocs (rev (sort_key todo_createdAt (todos s2)))),
      logged Todo_find_call s2)"
    by (rule todos_get_up)
  with h have ts: "ts = rev (sort_key todo_createdAt (todos s2))" by simp
  have "a \<in> set ts" "b \<in> set ts" using A B by (simp_all add: ts)
  moreover have "todo_createdAt a < todo_createdAt b" using A B h by simp
  moreover have "sorted_wrt (\<lambda>x y. todo_createdAt y \<le> todo_createdAt x) ts"
    unfolding ts by (rule newest_first_sorted)
  ultimately show "precedes b a ts" by (intro precedes_sorted)
qed

theorem todos_get_newest_first_witness:
  "db_up store_empty \<and> todos store_empty = []
   \<and> todos_get store_empty = (Responded 200 (TodoDocs []), logged Todo_find_call store_empty)
   \<and> todos_post 3 (JObj [(js ''text'', JStr (js ''A''))]) store_empty
       = (Responded 201
            (TodoDoc \<lparr>todo_id = 0, todo_text = js ''A'', todo_completed = False,
                      todo_createdAt = 3, todo_updatedAt = 3\<rparr>),
          \<lparr>todos = [\<lparr>todo_id = 0, todo_text = js ''A'', todo_completed = False,
                      todo_createdAt = 3, todo_updatedAt = 3\<rparr>],
            quotes = [], next_id = 1, db_up = True, oplog = [Todo_create_call]\<rparr>)
   \<and> todos_post 8 (JObj [(js ''text'', JStr (js ''B''))])
         \<lparr>todos = [\<lparr>todo_id = 0, todo_text = js ''A'', todo_completed = False,
                      todo_createdAt = 3, todo_updatedAt = 3\<rparr>],
            quotes = [], next_id = 1, db_up = True, oplog = [Todo_create_call]\<rparr>
       = (Responded 201
            (TodoDoc \<lparr>todo_id = 1, todo_text = js ''B'', todo_completed = False,
                      todo_createdAt = 8, todo_updatedAt = 8\<rparr>),
          \<lparr>todos = [\<lparr>todo_id = 0, todo_text = js ''A'', todo_completed = False,
                      todo_createdAt = 3, todo_updatedAt = 3\<rparr>,
                     \<lparr>todo_id = 1, todo_text = js ''B'', todo_completed = False,
                      todo_createdAt = 8, todo_updatedAt = 8\<rparr>],
            quotes = [], next_id = 2, db_up = True,
            oplog = [Todo_create_call, Todo_create_call]\<rparr>)
   \<and> (3::nat) < 8
   \<and> todos_get
         \<lparr>todos = [\<lparr>todo_id = 0, todo_text = js ''A'', todo_completed = False,
                      todo_createdAt = 3, todo_updatedAt = 3\<rparr>,
                     \<lparr>todo_id = 1, todo_text = js ''B'', todo_completed = False,
                      todo_createdAt = 8, todo_updatedAt = 8\<rparr>],
            quotes = [], next_id = 2, db_up = True,
            oplog = [Todo_create_call, Todo_create_call]\<rparr>
       = (Responded 200
            (TodoDocs [\<lparr>todo_id = 1, todo_text = js ''B'', todo_completed = False,
                        todo_createdAt = 8, todo_updatedAt = 8\<rparr>,
                       \<lparr>todo_id = 0, todo_text = js ''A'', todo_completed = False,
                        todo_createdAt = 3, todo_updatedAt = 3\<rparr>]),
          \<lparr>todos = [\<lparr>todo_id = 0, todo_text = js ''A'', todo_completed = False,
                      todo_createdAt = 3, todo_updatedAt = 3\<rparr>,
                     \<lparr>todo_id = 1, todo_text = js ''B'', todo_completed = False,
                      todo_createdAt = 8, todo_updatedAt = 8\<rparr>],
            quotes = [], next_id = 2, db_up = True,
            oplog = [Todo_create_call, Todo_create_call, Todo_find_call]\<rparr>)
   \<and> precedes \<lparr>todo_id = 1, todo_text = js ''B'', todo_completed = False,
                 todo_createdAt = 8, todo_updatedAt = 8\<rparr>
               \<lparr>todo_id = 0, todo_text = js ''A'', todo_completed = False,
                 todo_createdAt = 3, todo_updatedAt = 3\<rparr>
               [\<lparr>todo_id = 1, todo_text = js ''B'', todo_completed = False,
                  todo_createdAt = 8, todo_updatedAt = 8\<rparr>,
                \<lparr>todo_id = 0, todo_text = js ''A'', todo_completed = False,
                  todo_createdAt = 3, todo_updatedAt = 3\<rparr>]"
proof -
  let ?a = "\<lparr>todo_id = 0, todo_text = js ''A'', todo_completed = False,
             todo_createdAt = 3, todo_updatedAt = 3\<rparr>"
  let ?b = "\<lparr>todo_id = 1, todo_text = js ''B'', todo_completed = False,
             todo_createdAt = 8, todo_updatedAt = 8\<rparr>"
  let ?s1 = "\<lparr>todos = [?a], quotes = [], next_id = 1, db_up = True,
              oplog = [Todo_create_call]\<rparr>"
  let ?s2 = "\<lparr>todos = [?a, ?b], quotes = [], next_id = 2, db_up = True,
              oplog = [Todo_create_call, Todo_create_call]\<rparr>"
  let ?s3 = "\<lparr>todos = [?a, ?b], quotes = [], next_id = 2, db_up = True,
              oplog = [Todo_create_call, Todo_create_call, Todo_find_call]\<rparr>"
  have u: "db_up store_empty" and e: "todos store_empty = []"
    by (simp_all add: store_empty_def)
  have tA: "trim (js ''A'') = js ''A''" and tB: "trim (js ''B'') = js ''B''"
    by (simp_all add: trim_def js_def is_ws_def)
  have neA: "js ''A'' \<noteq> []" and neB: "js ''B'' \<noteq> []"
    by (simp_all add: js_def)
  have pa: "todos_post 3 (JObj [(js ''text'', JStr (js ''A''))]) store_empty
              = (Responded 201 (TodoDoc ?a), ?s1)"
    using tA neA
    by (simp add: todos_post_def opt_prop_def js_or_def Todo_create_def required_text_def
                  logged_def store_empty_def Let_def)
  have pb: "todos_post 8 (JObj [(js ''text'', JStr (js ''B''))]) ?s1
              = (Responded 201 (TodoDoc ?b), ?s2)"
    using tB neB
    by (simp add: todos_post_def opt_prop_def js_or_def Todo_create_def required_text_def
                  logged_def Let_def)
  have g: "todos_get ?s2 = (Responded 200 (TodoDocs [?b, ?a]), ?s3)"
    by (simp add: todos_get_def Todo_find_sorted_def logged_def Let_def)
  from todos_get_newest_first [OF u] e
  have one: "todos_get store_empty
               = (Responded 200 (TodoDocs []), logged Todo_find_call store_empty)"
    by blast
  have three: "(3::nat) < 8" by simp
  have two: "precedes ?b ?a [?b, ?a]"
    by (rule todos_get_newest_first
               [OF u, THEN conjunct2, THEN conjunct2, rule_format,
                where ta = 3 and tb = 8 and a = ?a and b = ?b and ?s1.0 = ?s1
                  and ?s2.0 = ?s2 and ?s3.0 = ?s3 and ts = "[?b, ?a]"
                  and body_a = "JObj [(js ''text'', JStr (js ''A''))]"
                  and body_b = "JObj [(js ''text'', JStr (js ''B''))]"])
       (intro conjI pa pb g three)
  from u e one pa pb g three two show ?thesis by blast
qed

section \<open>Deleting a todo\<close>

text \<open>
  Claim C6. \<open>DELETE /api/todos/:id\<close> with a well-formed identifier, while the database
  answers: when a todo with that identifier is stored, it is removed (one document
  less; with identifiers distinct, exactly the todos with other identifiers remain)
  and the answer is 200 with the message and the identifier of the request; when none
  is stored, the answer is 404 and the todo collection is as before.
\<close>

theorem todos_delete_by_id:
  assumes "parse_oid ident = Some k" and "db_up s"
  shows "(k \<in> todo_id ` set (todos s) \<longrightarrow>
            todos_delete ident s =
              (Responded 200 (Deleted ''Todo deleted'' ident),
               s\<lparr>todos := delete_first k (todos s),
                 oplog := oplog s @ [Todo_findByIdAndDelete_call]\<rparr>)
            \<and> Suc (length (delete_first k (todos s))) = length (todos s)
            \<and> (distinct (map todo_id (todos s)) \<longrightarrow>
                 delete_first k (todos s) = filter (\<lambda>d. todo_id d \<noteq> k) (todos s)))
       \<and> (k \<notin> todo_id ` set (todos s) \<longrightarrow>
            todos_delete ident s =
              (Responded 404 (Message ''Todo not found''),
               s\<lparr>oplog := oplog s @ [Todo_findByIdAndDelete_call]\<rparr>))"
proof (intro conjI impI)
  assume "k \<in> todo_id ` set (todos s)"
  then obtain d where "find (\<lambda>d. todo_id d = k) (todos s) = Some d"
    using find_None_iff_id [of k "todos s"]
    by (cases "find (\<lambda>d. todo_id d = k) (todos s)") auto
  then show "todos_delete ident s =
              (Responded 200 (Deleted ''Todo deleted'' ident),
               s\<lparr>todos := delete_first k (todos s),
                 oplog := oplog s @ [Todo_findByIdAndDelete_call]\<rparr>)"
    using assms by (simp add: todos_delete_def Todo_findByIdAndDelete_def logged_def Let_def)
next
  assume "k \<in> todo_id ` set (todos s)"
  then show "Suc (length (delete_first k (todos s))) = length (todos s)"
    by (rule length_delete_first)
next
  assume "distinct (map todo_id (todos s))"
  then show "delete_first k (todos s) = filter (\<lambda>d. todo_id d \<noteq> k) (todos s)"
    by (rule delete_first_distinct)
next
  assume "k \<notin> todo_id ` set (todos s)"
  then have "find (\<lambda>d. todo_id d = k) (todos s) = None"
    by (simp add: find_None_iff_id)
  then show "todos_delete ident s =
              (Responded 404 (Message ''Todo not found''),
               s\<lparr>oplog := oplog s @ [Todo_findByIdAndDelete_call]\<rparr>)"
    using assms by (simp add: todos_delete_def Todo_findByIdAndDelete_def logged_def Let_def)
qed

theorem todos_delete_by_id_witness:
  "parse_oid id_milk = Some 161 \<and> db_up store_milk
   \<and> 161 \<in> todo_id ` set (todos store_milk)
   \<and> distinct (map todo_id (todos store_milk))
   \<and> todos_delete id_milk store_milk =
       (Responded 200 (Deleted ''Todo deleted'' id_milk),
        \<lparr>todos = [], quotes = [], next_id = 162, db_up = True,
          oplog = [Todo_findByIdAndDelete_call]\<rparr>)
   \<and> db_up store_zen
   \<and> 161 \<notin> todo_id ` set (todos store_zen)
   \<and> todos_delete id_milk store_zen =
       (Responded 404 (Message ''Todo not found''),
        \<lparr>todos = [], quotes = [quote_zen], next_id = 8, db_up = True,
          oplog = [Todo_findByIdAndDelete_call]\<rparr>)"
proof -
  have u: "db_up store_milk" and m: "161 \<in> todo_id ` set (todos store_milk)"
    and dm: "distinct (map todo_id (todos store_milk))"
    by (simp_all add: store_milk_def todo_milk_def)
  have uz: "db_up store_zen" and nz: "161 \<notin> todo_id ` set (todos store_zen)"
    by (simp_all add: store_zen_def)
  from todos_delete_by_id [OF parse_id_milk u] m dm
  have "todos_delete id_milk store_milk =
              (Responded 200 (Deleted ''Todo deleted'' id_milk),
               store_milk\<lparr>todos := filter (\<lambda>d. todo_id d \<noteq> 161) (todos store_milk),
                 oplog := oplog store_milk @ [Todo_findByIdAndDelete_call]\<rparr>)"
    by simp
  then have one: "todos_delete id_milk store_milk =
       (Responded 200 (Deleted ''Todo deleted'' id_milk),
        \<lparr>todos = [], quotes = [], next_id = 162, db_up = True,
          oplog = [Todo_findByIdAndDelete_call]\<rparr>)"
    by (simp add: store_milk_def todo_milk_def)
  from todos_delete_by_id [OF parse_id_milk uz] nz
  have "todos_delete id_milk store_zen =
              (Responded 404 (Message ''Todo not found''),
               store_zen\<lparr>oplog := oplog store_zen @ [Todo_findByIdAndDelete_call]\<rparr>)"
    by blast
  then have two: "todos_delete id_milk store_zen =
       (Responded 404 (Message ''Todo not found''),
        \<lparr>todos = [], quotes = [quote_zen], next_id = 8, db_up = True,
          oplog = [Todo_findByIdAndDelete_call]\<rparr>)"
    by (simp add: store_zen_def)
  from parse_id_milk u m dm one uz nz two show ?thesis by blast
qed

section \<open>Requests that no API route takes\<close>

text \<open>Route paths are matched without regard to case and with a slash at the end
  allowed; the parameter is what stands between the slashes.\<close>

lemma match_route_ignores_case:
  "match_route plain_decode GET (js ''/API/Health/'') = Routed Health_route
   \<and> match_route plain_decode DELETE (js ''/Api/Todos/0000000000000000000000a1'')
       = Routed (Todos_delete_route (js ''0000000000000000000000a1''))
   \<and> match_route plain_decode GET (js ''/api//health'') = Unrouted"
  by (simp add: match_route_def path_is_def id_param_def ci_eq_def upper_ascii_def
                is_get_def plain_decode_def js_def)

text \<open>
  Claim C8, as the code has it. A GET or HEAD request that no API route takes is
  served from the static files by \<open>express.static\<close> when that has an answer for it, and
  otherwise by the fallback, which sends the index document with status 200 (given
  that the index document exists and the path can be decoded; the framework's 404
  when the document is missing, its 400 when the path cannot be decoded). A request of
  another method that no API route takes is not served from the static files: OPTIONS
  is answered 204 by the \<open>cors\<close> middleware, every other method 404 by the framework
  (400 when its path cannot be decoded). The store is not touched.
\<close>

theorem unrouted_request_answers:
  assumes "match_route (decode_uri pf) (req_method rq) (req_path rq) = Unrouted"
  shows "(is_get (req_method rq) \<and> static_send pf rq = Some r \<longrightarrow>
            dispatch pf rq s = (r, s))
       \<and> (is_get (req_method rq) \<and> static_send pf rq = None
            \<and> decode_uri pf (req_path rq) = Some whole \<and> index_doc pf = Some idx \<longrightarrow>
            dispatch pf rq s = (Responded 200 (File idx), s))
       \<and> (is_get (req_method rq) \<and> static_send pf rq = None
            \<and> decode_uri pf (req_path rq) = Some whole \<and> index_doc pf = None \<longrightarrow>
            dispatch pf rq s = (Responded 404 Error_page, s))
       \<and> (is_get (req_method rq) \<and> static_send pf rq = None
            \<and> decode_uri pf (req_path rq) = None \<longrightarrow>
            dispatch pf rq s = (Responded 400 Error_page, s))
       \<and> (\<not> is_get (req_method rq) \<and> req_method rq \<noteq> OPTIONS
            \<and> decode_uri pf (req_path rq) = Some whole \<longrightarrow>
            dispatch pf rq s = (Responded 404 Error_page, s))
       \<and> (\<not> is_get (req_method rq) \<and> req_method rq \<noteq> OPTIONS
            \<and> decode_uri pf (req_path rq) = None \<longrightarrow>
            dispatch pf rq s = (Responded 400 Error_page, s))
       \<and> (req_method rq = OPTIONS \<longrightarrow>
            dispatch pf rq s = (Responded 204 NoContent, s))"
  using assms
  by (auto simp: dispatch_def express_static_def spa_fallback_def is_get_def
           split: option.splits)

theorem unrouted_request_answers_witness:
  "match_route (decode_uri sample_platform) GET (js ''/about'') = Unrouted
   \<and> is_get GET
   \<and> static_send sample_platform
        \<lparr>req_method = GET, req_path = js ''/about'', req_body = JUndefined,
          req_clock = clock_from 0, req_rnd = 0\<rparr> = None
   \<and> decode_uri sample_platform (js ''/about'') = Some (js ''/about'')
   \<and> index_doc sample_platform = Some ''<html>''
   \<and> dispatch sample_platform
        \<lparr>req_method = GET, req_path = js ''/about'', req_body = JUndefined,
          req_clock = clock_from 0, req_rnd = 0\<rparr> store_milk
       = (Responded 200 (File ''<html>''), store_milk)
   \<and> match_route (decode_uri sample_platform) GET (js ''/app.js'') = Unrouted
   \<and> static_send sample_platform
        \<lparr>req_method = GET, req_path = js ''/app.js'', req_body = JUndefined,
          req_clock = clock_from 0, req_rnd = 0\<rparr> = Some (Responded 200 (File ''run()''))
   \<and> dispatch sample_platform
        \<lparr>req_method = GET, req_path = js ''/app.js'', req_body = JUndefined,
          req_clock = clock_from 0, req_rnd = 0\<rparr> store_milk
       = (Responded 200 (File ''run()''), store_milk)
   \<and> match_route (decode_uri sample_platform) PUT (js ''/about'') = Unrouted
   \<and> \<not> is_get PUT \<and> PUT \<noteq> OPTIONS
   \<and> dispatch sample_platform
        \<lparr>req_method = PUT, req_path = js ''/about'', req_body = JUndefined,
          req_clock = clock_from 0, req_rnd = 0\<rparr> store_milk
       = (Responded 404 Error_page, store_milk)
   \<and> match_route (decode_uri sample_platform) PUT (js ''/a%'') = Unrouted
   \<and> decode_uri sample_platform (js ''/a%'') = None
   \<and> dispatch sample_platform
        \<lparr>req_method = PUT, req_path = js ''/a%'', req_body = JUndefined,
          req_clock = clock_from 0, req_rnd = 0\<rparr> store_milk
       = (Responded 400 Error_page, store_milk)"
proof -
  let ?about = "\<lparr>req_method = GET, req_path = js ''/about'', req_body = JUndefined,
          req_clock = clock_from 0, req_rnd = 0\<rparr>"
  let ?app = "\<lparr>req_method = GET, req_path = js ''/app.js'', req_body = JUndefined,
          req_clock = clock_from 0, req_rnd = 0\<rparr>"
  let ?put = "\<lparr>req_method = PUT, req_path = js ''/about'', req_body = JUndefined,
          req_clock = clock_from 0, req_rnd = 0\<rparr>"
  let ?bad = "\<lparr>req_method = PUT, req_path = js ''/a%'', req_body = JUndefined,
          req_clock = clock_from 0, req_rnd = 0\<rparr>"
  have g: "is_get GET" and ng: "\<not> is_get PUT" and no: "PUT \<noteq> OPTIONS"
    by (simp_all add: is_get_def)
  have r1: "match_route (decode_uri sample_platform) GET (js ''/about'') = Unrouted"
    by (simp add: match_route_def path_is_def id_param_def ci_eq_def upper_ascii_def
                  is_get_def js_def)
  have r2: "match_route (decode_uri sample_platform) GET (js ''/app.js'') = Unrouted"
    by (simp add: match_route_def path_is_def id_param_def ci_eq_def upper_ascii_def
                  is_get_def js_def)
  have r3: "match_route (decode_uri sample_platform) PUT (js ''/about'') = Unrouted"
    by (simp add: match_route_def path_is_def id_param_def ci_eq_def upper_ascii_def
                  is_get_def js_def)
  have r4: "match_route (decode_uri sample_platform) PUT (js ''/a%'') = Unrouted"
    by (simp add: match_route_def path_is_def id_param_def ci_eq_def upper_ascii_def
                  is_get_def js_def)
  have d1: "decode_uri sample_platform (js ''/about'') = Some (js ''/about'')"
    by (simp add: sample_platform_def plain_decode_def js_def)
  have d4: "decode_uri sample_platform (js ''/a%'') = None"
    by (simp add: sample_platform_def plain_decode_def js_def)
  have ix: "index_doc sample_platform = Some ''<html>''"
    by (simp add: sample_platform_def)
  have s1: "static_send sample_platform ?about = None"
    by (simp add: sample_platform_def serve_app_js_def js_def)
  have s2: "static_send sample_platform ?app = Some (Responded 200 (File ''run()''))"
    by (simp add: sample_platform_def serve_app_js_def)
  from unrouted_request_answers
         [where pf = sample_platform and rq = ?about and s = store_milk and idx = "''<html>''"
            and whole = "js ''/about''"]
       r1 g s1 d1 ix
  have one: "dispatch sample_platform ?about store_milk
               = (Responded 200 (File ''<html>''), store_milk)"
    by simp
  from unrouted_request_answers
         [where pf = sample_platform and rq = ?app and s = store_milk
            and r = "Responded 200 (File ''run()'')"]
       r2 g s2
  have two: "dispatch sample_platform ?app store_milk
               = (Responded 200 (File ''run()''), store_milk)"
    by simp
  from unrouted_request_answers
         [where pf = sample_platform and rq = ?put and s = store_milk
            and whole = "js ''/about''"]
       r3 ng no d1
  have three: "dispatch sample_platform ?put store_milk = (Responded 404 Error_page, store_milk)"
    by simp
  from unrouted_request_answers [where pf = sample_platform and rq = ?bad and s = store_milk]
       r4 ng no d4
  have four: "dispatch sample_platform ?bad store_milk = (Responded 400 Error_page, store_milk)"
    by simp
  from r1 g s1 d1 ix one r2 s2 two r3 ng no three r4 d4 four show ?thesis by blast
qed

text \<open>
  Claim C8 as stated fails for a method other than GET: a POST to \<open>/foo\<close>, a path of no
  API route, is passed on by the static files and by the fallback and is answered 404,
  while a GET of the same path is answered with the index document.
\<close>

theorem post_unknown_path_counterexample:
  "match_route plain_decode POST (js ''/foo'') = Unrouted
   \<and> dispatch
       \<lparr>decode_uri = plain_decode, static_send = serve_app_js, index_doc = Some ''<html>''\<rparr>
       \<lparr>req_method = POST, req_path = js ''/foo'', req_body = JUndefined,
         req_clock = clock_from 0, req_rnd = 0\<rparr>
       \<lparr>todos = [], quotes = [], next_id = 0, db_up = True, oplog = []\<rparr>
     = (Responded 404 Error_page,
        \<lparr>todos = [], quotes = [], next_id = 0, db_up = True, oplog = []\<rparr>)
   \<and> dispatch
       \<lparr>decode_uri = plain_decode, static_send = serve_app_js, index_doc = Some ''<html>''\<rparr>
       \<lparr>req_method = GET, req_path = js ''/foo'', req_body = JUndefined,
         req_clock = clock_from 0, req_rnd = 0\<rparr>
       \<lparr>todos = [], quotes = [], next_id = 0, db_up = True, oplog = []\<rparr>
     = (Responded 200 (File ''<html>''),
        \<lparr>todos = [], quotes = [], next_id = 0, db_up = True, oplog = []\<rparr>)"
  by (simp add: dispatch_def match_route_def path_is_def id_param_def ci_eq_def
                upper_ascii_def express_static_def spa_fallback_def serve_app_js_def
                plain_decode_def is_get_def js_def)

end
